theory Spec2Isabelle
  imports
    Main
    "HOL-Library.AList"
    "HOL-Library.Multiset"
    "HOL-Library.Char_ord"
    "HOL-Library.List_Lexorder"
    "HOL-Library.Product_Lexorder"
begin

section \<open>Data model\<close>

subsection \<open>Exceptions\<close>

text \<open>
  The exception classes of \<^verbatim>\<open>api_utils.flask_utils.exceptions\<close> that the service and
  the routes name, each carrying its message. \<open>PyException\<close> stands for every other
  subclass of Python's \<^verbatim>\<open>Exception\<close> (driver errors, \<^verbatim>\<open>TypeError\<close>, ...). The
  classes are taken to be unrelated by inheritance, so that \<^verbatim>\<open>except HTTPNotFound\<close>
  catches exactly the \<open>HTTPNotFound\<close> values.
\<close>

datatype exc =
    HTTPBadRequest string
  | HTTPUnauthorized string
  | HTTPForbidden string
  | HTTPNotFound string
  | HTTPInternalServerError string
  | PyException string

text \<open>\<^verbatim>\<open>str(e)\<close>: the message the exception was built with.\<close>

fun exc_str :: "exc \<Rightarrow> string" where
  "exc_str (HTTPBadRequest m) = m"
| "exc_str (HTTPUnauthorized m) = m"
| "exc_str (HTTPForbidden m) = m"
| "exc_str (HTTPNotFound m) = m"
| "exc_str (HTTPInternalServerError m) = m"
| "exc_str (PyException m) = m"

subsection \<open>Values, dictionaries and the Python heap\<close>

text \<open>
  JSON values as the request body and the stored documents hold them (numbers are
  integers here; floating point is not modelled).
\<close>

datatype json =
    JNull
  | JBool bool
  | JNum int
  | JStr string
  | JArr "json list"
  | JObj "(string \<times> json) list"

type_synonym jobj = "(string \<times> json) list"

text \<open>
  \<^verbatim>\<open>create_grade\<close> mutates the caller's dictionary and stores a reference to the
  caller's breadcrumb object in it, so both live in an explicit heap. An entry of a
  request dictionary is either a JSON value of its own or a reference to a shared
  object; the shared objects (the breadcrumbs built by \<^verbatim>\<open>create_flask_breadcrumb\<close>)
  are JSON objects. A dictionary is an association list handled with
  \<^const>\<open>AList.update\<close> and \<^const>\<open>AList.delete\<close>, which keep Python's insertion order.
\<close>

type_synonym addr = nat

datatype pyval = Val json | Ref addr

type_synonym pydict = "(string \<times> pyval) list"

record heap =
  dicts :: "addr \<Rightarrow> pydict"
  objs :: "addr \<Rightarrow> jobj"

record token =
  user_id :: string
  roles :: "string list"

subsection \<open>External collaborators\<close>

text \<open>
  \<^verbatim>\<open>Config.get_instance()\<close> supplies the collection name; its value is not part of the
  repository and is a parameter.
\<close>

record config =
  GRADE_COLLECTION_NAME :: string

text \<open>The result dictionary of \<^verbatim>\<open>execute_infinite_scroll_query\<close>.\<close>

record 'd page =
  items :: "'d list"
  limit :: int
  has_more :: bool
  next_cursor :: "string option"

text \<open>
  The calls into \<^verbatim>\<open>api_utils\<close> (\<^verbatim>\<open>MongoIO\<close> and \<^verbatim>\<open>execute_infinite_scroll_query\<close>,
  the field \<open>scroll_query\<close>) are parameters of the service: each maps its arguments and
  the state \<open>'st\<close> of the document store to an exception or a result. \<open>'c\<close> is the
  collection handle and \<open>'d\<close> the type of a fetched document. A failure of
  \<^verbatim>\<open>MongoIO.get_instance()\<close> or \<^verbatim>\<open>Config.get_instance()\<close> is a failure of the adapter
  call that follows it in the same \<^verbatim>\<open>try\<close> block. The adapter reads the caller's dictionary through the heap; what the
  driver itself may write into that dictionary is outside this model.
\<close>

record ('st, 'c, 'd) api_utils =
  create_document :: "string \<Rightarrow> heap \<Rightarrow> addr \<Rightarrow> 'st \<Rightarrow> exc + (string \<times> 'st)"
  get_document :: "string \<Rightarrow> string \<Rightarrow> 'st \<Rightarrow> exc + 'd option"
  get_collection :: "string \<Rightarrow> 'st \<Rightarrow> exc + 'c"
  scroll_query ::
    "'c \<Rightarrow> string option \<Rightarrow> string option \<Rightarrow> int \<Rightarrow> string \<Rightarrow> string \<Rightarrow> string list
      \<Rightarrow> exc + 'd page"

section \<open>The grade service (\<^verbatim>\<open>src/services/grade_service.py\<close>)\<close>

definition ALLOWED_SORT_FIELDS :: "string list" where
  "ALLOWED_SORT_FIELDS = [''name'', ''description'', ''created.at_time'']"

text \<open>\<^verbatim>\<open>_check_permission\<close>: the body is \<^verbatim>\<open>pass\<close>, it never raises.\<close>

definition check_permission :: "token \<Rightarrow> string \<Rightarrow> exc + unit" where
  "check_permission tok operation = Inr ()"

text \<open>
  Each service function is a \<^verbatim>\<open>try\<close> block followed by its \<^verbatim>\<open>except\<close> clauses. The
  block is modelled by the function named \<open>..._try\<close>, whose result is the block's
  return value or the exception that leaves it; the service function applies the
  \<^verbatim>\<open>except\<close> clauses, in the source's order, to that result. Logging is not modelled.
\<close>

text \<open>
  \<^verbatim>\<open>create_grade(data, token, breadcrumb)\<close>. \<open>data\<close> is the address of the caller's
  dictionary, \<open>breadcrumb\<close> the value the caller passes (a reference to its breadcrumb
  object). The function returns the heap it leaves behind together with its outcome:
  the new identifier and the store's new state, or the exception it raises.
\<close>

definition create_grade_try ::
  "('st, 'c, 'd) api_utils \<Rightarrow> config \<Rightarrow> heap \<Rightarrow> addr \<Rightarrow> token \<Rightarrow> pyval \<Rightarrow> 'st
    \<Rightarrow> heap \<times> (exc + (string \<times> 'st))" where
  "create_grade_try io cfg h data tok breadcrumb st =
    (case check_permission tok ''create'' of
       Inl e \<Rightarrow> (h, Inl e)
     | Inr _ \<Rightarrow>
        (let d1 = (if ''_id'' \<in> fst ` set (dicts h data)
                   then AList.delete ''_id'' (dicts h data) else dicts h data);
             d2 = AList.update ''created'' breadcrumb d1;
             h' = h\<lparr>dicts := (dicts h)(data := d2)\<rparr>
         in (h', create_document io (GRADE_COLLECTION_NAME cfg) h' data st)))"

definition create_grade ::
  "('st, 'c, 'd) api_utils \<Rightarrow> config \<Rightarrow> heap \<Rightarrow> addr \<Rightarrow> token \<Rightarrow> pyval \<Rightarrow> 'st
    \<Rightarrow> heap \<times> (exc + (string \<times> 'st))" where
  "create_grade io cfg h data tok breadcrumb st =
    (case create_grade_try io cfg h data tok breadcrumb st of
       (h', Inr grade_id) \<Rightarrow> (h', Inr grade_id)
     | (h', Inl (HTTPForbidden m)) \<Rightarrow> (h', Inl (HTTPForbidden m))
     | (h', Inl e) \<Rightarrow>
         (h', Inl (HTTPInternalServerError (''Failed to create grade: '' @ exc_str e))))"

text \<open>\<^verbatim>\<open>get_grades(token, breadcrumb, name, after_id, limit, sort_by, order)\<close>.\<close>

definition get_grades_try ::
  "('st, 'c, 'd) api_utils \<Rightarrow> config \<Rightarrow> 'st \<Rightarrow> token \<Rightarrow> pyval \<Rightarrow> string option
    \<Rightarrow> string option \<Rightarrow> int \<Rightarrow> string \<Rightarrow> string \<Rightarrow> exc + 'd page" where
  "get_grades_try io cfg st tok breadcrumb name after_id lim sort_by order =
    (case check_permission tok ''read'' of
       Inl e \<Rightarrow> Inl e
     | Inr _ \<Rightarrow>
        (case get_collection io (GRADE_COLLECTION_NAME cfg) st of
           Inl e \<Rightarrow> Inl e
         | Inr collection \<Rightarrow>
             scroll_query io collection name after_id lim sort_by order
               ALLOWED_SORT_FIELDS))"

definition get_grades ::
  "('st, 'c, 'd) api_utils \<Rightarrow> config \<Rightarrow> 'st \<Rightarrow> token \<Rightarrow> pyval \<Rightarrow> string option
    \<Rightarrow> string option \<Rightarrow> int \<Rightarrow> string \<Rightarrow> string \<Rightarrow> exc + 'd page" where
  "get_grades io cfg st tok breadcrumb name after_id lim sort_by order =
    (case get_grades_try io cfg st tok breadcrumb name after_id lim sort_by order of
       Inr result \<Rightarrow> Inr result
     | Inl (HTTPBadRequest m) \<Rightarrow> Inl (HTTPBadRequest m)
     | Inl e \<Rightarrow> Inl (HTTPInternalServerError ''Failed to retrieve grades''))"

text \<open>\<^verbatim>\<open>get_grade(grade_id, token, breadcrumb)\<close>.\<close>

definition get_grade_try ::
  "('st, 'c, 'd) api_utils \<Rightarrow> config \<Rightarrow> 'st \<Rightarrow> string \<Rightarrow> token \<Rightarrow> pyval \<Rightarrow> exc + 'd" where
  "get_grade_try io cfg st grade_id tok breadcrumb =
    (case check_permission tok ''read'' of
       Inl e \<Rightarrow> Inl e
     | Inr _ \<Rightarrow>
        (case get_document io (GRADE_COLLECTION_NAME cfg) grade_id st of
           Inl e \<Rightarrow> Inl e
         | Inr None \<Rightarrow> Inl (HTTPNotFound (''Grade '' @ grade_id @ '' not found''))
         | Inr (Some grade) \<Rightarrow> Inr grade))"

definition get_grade ::
  "('st, 'c, 'd) api_utils \<Rightarrow> config \<Rightarrow> 'st \<Rightarrow> string \<Rightarrow> token \<Rightarrow> pyval \<Rightarrow> exc + 'd" where
  "get_grade io cfg st grade_id tok breadcrumb =
    (case get_grade_try io cfg st grade_id tok breadcrumb of
       Inr grade \<Rightarrow> Inr grade
     | Inl (HTTPNotFound m) \<Rightarrow> Inl (HTTPNotFound m)
     | Inl e \<Rightarrow> Inl (HTTPInternalServerError (''Failed to retrieve grade '' @ grade_id)))"

text \<open>
  The three error kinds the specification calls domain errors: validation, forbidden
  and not-found.
\<close>

definition domain_error :: "exc \<Rightarrow> bool" where
  "domain_error e =
    (case e of HTTPBadRequest m \<Rightarrow> True | HTTPForbidden m \<Rightarrow> True | HTTPNotFound m \<Rightarrow> True
     | _ \<Rightarrow> False)"

section \<open>The grade routes (\<^verbatim>\<open>src/routes/grade_routes.py\<close>)\<close>

subsection \<open>What Flask hands to a route\<close>

text \<open>
  \<^verbatim>\<open>request.args.get(key)\<close>, \<^verbatim>\<open>request.args.get(key, default)\<close> and
  \<^verbatim>\<open>request.args.get(key, default, type=int)\<close> of Werkzeug's \<^verbatim>\<open>MultiDict\<close>: with a
  \<^verbatim>\<open>type\<close>, a value the conversion rejects (\<^verbatim>\<open>ValueError\<close>) yields the default.
  Python's builtin \<^verbatim>\<open>int\<close> is a parameter, \<open>py_int\<close>: it maps a string to the integer
  \<^verbatim>\<open>int\<close> returns for it, or to \<open>None\<close> where \<^verbatim>\<open>int\<close> raises \<^verbatim>\<open>ValueError\<close>.
\<close>

definition args_get :: "(string \<rightharpoonup> string) \<Rightarrow> string \<Rightarrow> string option" where
  "args_get a k = a k"

definition args_get_default :: "(string \<rightharpoonup> string) \<Rightarrow> string \<Rightarrow> string \<Rightarrow> string" where
  "args_get_default a k d = (case a k of None \<Rightarrow> d | Some v \<Rightarrow> v)"

definition args_get_type ::
  "(string \<rightharpoonup> string) \<Rightarrow> string \<Rightarrow> int \<Rightarrow> (string \<Rightarrow> int option) \<Rightarrow> int" where
  "args_get_type a k d py_int =
    (case a k of None \<Rightarrow> d | Some v \<Rightarrow> (case py_int v of None \<Rightarrow> d | Some n \<Rightarrow> n))"

text \<open>
  The request as a route sees it: the outcome of \<^verbatim>\<open>create_flask_token()\<close>, the outcome
  of \<^verbatim>\<open>create_flask_breadcrumb(token)\<close>, the query string, and the body.
  \<open>get_json\<close> is the address of the dictionary parsed from a JSON object body, or
  \<open>None\<close> when \<^verbatim>\<open>request.get_json()\<close> is falsy, in which case \<^verbatim>\<open>or {}\<close> builds a new
  empty dictionary at the address \<open>new_dict\<close> that the allocator hands out. A body that
  is a truthy JSON value other than an object makes \<^verbatim>\<open>create_grade\<close> raise
  \<^verbatim>\<open>TypeError\<close> on its first use of \<open>data\<close>; such bodies are not modelled.
\<close>

record flask_request =
  create_flask_token :: "exc + token"
  create_flask_breadcrumb :: "token \<Rightarrow> exc + pyval"
  args :: "string \<rightharpoonup> string"
  get_json :: "addr option"
  new_dict :: addr

datatype 'a body = JsonBody 'a | ErrorBody string

type_synonym 'a response = "'a body \<times> nat"

text \<open>
  Modelled from the spec: \<^verbatim>\<open>handle_route_exceptions\<close> of \<^verbatim>\<open>api_utils\<close> is missing from
  the sources. Section 7 of the specification fixes the status code of each error kind,
  and gives every unexpected exception the code 500 with a generic message; the body
  carries the message under \<^verbatim>\<open>error\<close>, as the route tests read it.
\<close>

fun error_response :: "exc \<Rightarrow> 'a response" where
  "error_response (HTTPBadRequest m) = (ErrorBody m, 400)"
| "error_response (HTTPUnauthorized m) = (ErrorBody m, 401)"
| "error_response (HTTPForbidden m) = (ErrorBody m, 403)"
| "error_response (HTTPNotFound m) = (ErrorBody m, 404)"
| "error_response (HTTPInternalServerError m) = (ErrorBody m, 500)"
| "error_response (PyException m) = (ErrorBody ''A processing error occurred'', 500)"

definition handle_route_exceptions :: "exc + 'a response \<Rightarrow> 'a response" where
  "handle_route_exceptions r = (case r of Inl e \<Rightarrow> error_response e | Inr resp \<Rightarrow> resp)"

text \<open>
  \<^verbatim>\<open>breadcrumb[k]\<close> in the routes' log lines: \<^verbatim>\<open>KeyError\<close> when the breadcrumb has no
  such key, \<^verbatim>\<open>TypeError\<close> when it is not a dictionary.
\<close>

definition breadcrumb_item :: "heap \<Rightarrow> pyval \<Rightarrow> string \<Rightarrow> exc + json" where
  "breadcrumb_item h b k =
    (case b of
       Ref a \<Rightarrow> (case map_of (objs h a) k of
                   None \<Rightarrow> Inl (PyException k) | Some v \<Rightarrow> Inr v)
     | Val (JObj kvs) \<Rightarrow> (case map_of kvs k of
                            None \<Rightarrow> Inl (PyException k) | Some v \<Rightarrow> Inr v)
     | Val _ \<Rightarrow> Inl (PyException ''object is not subscriptable''))"

definition log_success :: "heap \<Rightarrow> pyval \<Rightarrow> exc + unit" where
  "log_success h b =
    (case breadcrumb_item h b ''at_time'' of
       Inl e \<Rightarrow> Inl e
     | Inr _ \<Rightarrow> (case breadcrumb_item h b ''correlation_id'' of
                   Inl e \<Rightarrow> Inl e | Inr _ \<Rightarrow> Inr ()))"

subsection \<open>The three endpoints\<close>

text \<open>\<^verbatim>\<open>POST /api/grade\<close>.\<close>

definition route_create_grade ::
  "('st, 'c, 'd) api_utils \<Rightarrow> config \<Rightarrow> flask_request \<Rightarrow> heap \<Rightarrow> 'st \<Rightarrow> 'd response" where
  "route_create_grade io cfg req h st =
    handle_route_exceptions
      (case create_flask_token req of
         Inl e \<Rightarrow> Inl e
       | Inr tok \<Rightarrow>
          (case create_flask_breadcrumb req tok of
             Inl e \<Rightarrow> Inl e
           | Inr breadcrumb \<Rightarrow>
              (let (h1, data) =
                     (case get_json req of
                        Some a \<Rightarrow> (h, a)
                      | None \<Rightarrow> (h\<lparr>dicts := (dicts h)(new_dict req := [])\<rparr>, new_dict req))
               in (case create_grade io cfg h1 data tok breadcrumb st of
                     (h2, Inl e) \<Rightarrow> Inl e
                   | (h2, Inr (grade_id, st')) \<Rightarrow>
                      (case get_grade io cfg st' grade_id tok breadcrumb of
                         Inl e \<Rightarrow> Inl e
                       | Inr grade \<Rightarrow>
                          (case log_success h2 breadcrumb of
                             Inl e \<Rightarrow> Inl e
                           | Inr _ \<Rightarrow> Inr (JsonBody grade, 201)))))))"

text \<open>\<^verbatim>\<open>GET /api/grade\<close>.\<close>

definition route_get_grades ::
  "(string \<Rightarrow> int option) \<Rightarrow> ('st, 'c, 'd) api_utils \<Rightarrow> config \<Rightarrow> flask_request \<Rightarrow> heap \<Rightarrow> 'st
    \<Rightarrow> 'd page response" where
  "route_get_grades py_int io cfg req h st =
    handle_route_exceptions
      (case create_flask_token req of
         Inl e \<Rightarrow> Inl e
       | Inr tok \<Rightarrow>
          (case create_flask_breadcrumb req tok of
             Inl e \<Rightarrow> Inl e
           | Inr breadcrumb \<Rightarrow>
              (let name = args_get (args req) ''name'';
                   after_id = args_get (args req) ''after_id'';
                   lim = args_get_type (args req) ''limit'' 10 py_int;
                   sort_by = args_get_default (args req) ''sort_by'' ''name'';
                   order = args_get_default (args req) ''order'' ''asc''
               in (case get_grades io cfg st tok breadcrumb name after_id lim sort_by order of
                     Inl e \<Rightarrow> Inl e
                   | Inr result \<Rightarrow>
                      (case log_success h breadcrumb of
                         Inl e \<Rightarrow> Inl e
                       | Inr _ \<Rightarrow> Inr (JsonBody result, 200))))))"

text \<open>\<^verbatim>\<open>GET /api/grade/<grade_id>\<close>.\<close>

definition route_get_grade ::
  "('st, 'c, 'd) api_utils \<Rightarrow> config \<Rightarrow> flask_request \<Rightarrow> heap \<Rightarrow> 'st \<Rightarrow> string \<Rightarrow> 'd response"
  where
  "route_get_grade io cfg req h st grade_id =
    handle_route_exceptions
      (case create_flask_token req of
         Inl e \<Rightarrow> Inl e
       | Inr tok \<Rightarrow>
          (case create_flask_breadcrumb req tok of
             Inl e \<Rightarrow> Inl e
           | Inr breadcrumb \<Rightarrow>
              (case get_grade io cfg st grade_id tok breadcrumb of
                 Inl e \<Rightarrow> Inl e
               | Inr grade \<Rightarrow>
                  (case log_success h breadcrumb of
                     Inl e \<Rightarrow> Inl e
                   | Inr _ \<Rightarrow> Inr (JsonBody grade, 200)))))"

section \<open>The collaborators the specification describes\<close>

subsection \<open>The document store\<close>

text \<open>
  A store state maps a collection name to its documents, each an identifier with the
  fields persisted under it, in insertion order.
\<close>

type_synonym store = "string \<Rightarrow> (string \<times> jobj) list"

text \<open>
  What the store persists of a request dictionary: every entry by value, a reference
  replaced by a copy of the object it points to.
\<close>

definition deref :: "heap \<Rightarrow> pyval \<Rightarrow> json" where
  "deref h v = (case v of Val j \<Rightarrow> j | Ref a \<Rightarrow> JObj (objs h a))"

definition snapshot :: "heap \<Rightarrow> pydict \<Rightarrow> jobj" where
  "snapshot h d = map (\<lambda>(k, v). (k, deref h v)) d"

text \<open>
  Modelled from the spec: \<^verbatim>\<open>MongoIO.create_document\<close> of \<^verbatim>\<open>api_utils\<close> is missing from
  the sources. Sections 3 and 6: \<^verbatim>\<open>create(collection, doc) -> id\<close>, the identifier is
  assigned by the store and identifies the document uniquely. \<open>new_id\<close> is the store's
  identifier generator; a generated identifier that is already taken is a failed write.
\<close>

definition mongo_create_document ::
  "(store \<Rightarrow> string \<Rightarrow> string) \<Rightarrow> string \<Rightarrow> heap \<Rightarrow> addr \<Rightarrow> store \<Rightarrow> exc + (string \<times> store)"
  where
  "mongo_create_document new_id coll h a st =
    (let i = new_id st coll in
     if i \<in> fst ` set (st coll) then Inl (PyException ''duplicate key'')
     else Inr (i, st(coll := st coll @ [(i, snapshot h (dicts h a))])))"

text \<open>The document as the store hands it out: its fields under its identifier.\<close>

definition render :: "string \<times> jobj \<Rightarrow> jobj" where
  "render e = (''_id'', JStr (fst e)) # snd e"

text \<open>
  Modelled from the spec: \<^verbatim>\<open>MongoIO.get_document\<close> of \<^verbatim>\<open>api_utils\<close> is missing from the
  sources. Section 6: \<^verbatim>\<open>get(collection, id) -> doc | null\<close>.
\<close>

definition mongo_get_document :: "string \<Rightarrow> string \<Rightarrow> store \<Rightarrow> exc + jobj option" where
  "mongo_get_document coll i st =
    Inr (map_option (\<lambda>fields. render (i, fields)) (map_of (st coll) i))"

text \<open>
  Modelled from the spec: \<^verbatim>\<open>MongoIO.get_collection\<close> of \<^verbatim>\<open>api_utils\<close> is missing from the
  sources; the handle is the collection's documents.
\<close>

definition mongo_get_collection :: "string \<Rightarrow> store \<Rightarrow> exc + jobj list" where
  "mongo_get_collection coll st = Inr (map render (st coll))"

subsection \<open>The pagination engine\<close>

datatype direction = Asc | Desc

definition lower_char :: "char \<Rightarrow> char" where
  "lower_char c =
    (let n = (of_char c :: nat) in if 65 \<le> n \<and> n \<le> 90 then char_of (n + 32) else c)"

definition parse_order :: "string \<Rightarrow> direction option" where
  "parse_order s =
    (let l = map lower_char s in
     if l = ''asc'' then Some Asc else if l = ''desc'' then Some Desc else None)"

text \<open>
  The words the specification allows for \<open>order\<close>, asc and desc in any mix of upper and
  lower case, each with the direction it asks for.
\<close>

definition asks_for :: "string \<Rightarrow> direction \<Rightarrow> bool" where
  "asks_for order dir \<longleftrightarrow>
    (dir = Asc \<and> order \<in> {''asc'', ''asC'', ''aSc'', ''aSC'', ''Asc'', ''AsC'', ''ASc'', ''ASC''})
    \<or> (dir = Desc \<and> order \<in> {''desc'', ''desC'', ''deSc'', ''deSC'', ''dEsc'', ''dEsC'',
                                ''dESc'', ''dESC'', ''Desc'', ''DesC'', ''DeSc'', ''DeSC'',
                                ''DEsc'', ''DEsC'', ''DESc'', ''DESC''})"

definition clamp_limit :: "int \<Rightarrow> int" where
  "clamp_limit n = max 1 (min 100 n)"

text \<open>
  \<open>before dir a b\<close>: key \<open>a\<close> comes strictly before key \<open>b\<close> in the direction \<open>dir\<close>;
  \<open>ordered dir key xs\<close>: the documents \<open>xs\<close> ordered by \<open>key\<close> in that direction.
\<close>

definition before :: "direction \<Rightarrow> 'k::linorder \<Rightarrow> 'k \<Rightarrow> bool" where
  "before dir a b = (case dir of Asc \<Rightarrow> a < b | Desc \<Rightarrow> b < a)"

definition ordered :: "direction \<Rightarrow> ('d \<Rightarrow> 'k::linorder) \<Rightarrow> 'd list \<Rightarrow> 'd list" where
  "ordered dir key xs = (case dir of Asc \<Rightarrow> sort_key key xs | Desc \<Rightarrow> rev (sort_key key xs))"

text \<open>
  Modelled from the spec: \<^verbatim>\<open>execute_infinite_scroll_query\<close> of \<^verbatim>\<open>api_utils.mongo_utils\<close>
  is missing from the sources. Section 4.1, in its order: the limit is clamped into
  [1, 100]; a \<open>sort_by\<close> outside the allow-list is a validation error naming it; an
  \<open>order\<close> other than asc/desc (case-insensitive) is a validation error; the name filter
  applies when present; a cursor is the identifier of a document whose (sort value,
  identifier) pair the continuation predicate compares with, strictly, in the requested
  direction, and a cursor that identifies no document is a validation error (sections 4.2
  and 9: the sort value is read from the cursor's document); \<open>limit + 1\<close> documents are
  fetched in (sort value, identifier) order, the extra one only sets \<open>has_more\<close>, and
  \<open>next_cursor\<close> is the identifier of the last returned document, or null when
  \<open>has_more\<close> is false or the page is empty. The collection's interface is a parameter:
  \<open>doc_id\<close> reads a document's identifier, \<open>sort_value\<close> its value under a sort field in
  the store's order of values, \<open>name_matches\<close> decides the name filter.
\<close>

definition execute_infinite_scroll_query ::
  "('d \<Rightarrow> string) \<Rightarrow> (string \<Rightarrow> 'd \<Rightarrow> 'k::linorder) \<Rightarrow> (string \<Rightarrow> 'd \<Rightarrow> bool) \<Rightarrow> 'd list
    \<Rightarrow> string option \<Rightarrow> string option \<Rightarrow> int \<Rightarrow> string \<Rightarrow> string \<Rightarrow> string list
    \<Rightarrow> exc + 'd page" where
  "execute_infinite_scroll_query doc_id sort_value name_matches collection name after_id lim
      sort_by order allowed_sort_fields =
    (let n = nat (clamp_limit lim);
         key = (\<lambda>d. (sort_value sort_by d, doc_id d))
     in if sort_by \<notin> set allowed_sort_fields
        then Inl (HTTPBadRequest (''Invalid sort_by: '' @ sort_by))
        else (case parse_order order of
                None \<Rightarrow> Inl (HTTPBadRequest (''Invalid order: '' @ order))
              | Some dir \<Rightarrow>
                 (case (case after_id of
                          None \<Rightarrow> Some (\<lambda>d. True)
                        | Some c \<Rightarrow>
                            map_option (\<lambda>cd. (\<lambda>d. before dir (key cd) (key d)))
                              (find (\<lambda>d. doc_id d = c) collection)) of
                    None \<Rightarrow> Inl (HTTPBadRequest ''Invalid after_id'')
                  | Some continues \<Rightarrow>
                     (let named = (case name of
                                     None \<Rightarrow> (\<lambda>d. True)
                                   | Some s \<Rightarrow> name_matches s);
                          fetched = take (n + 1)
                                      (ordered dir key
                                        (filter (\<lambda>d. named d \<and> continues d) collection));
                          more = (length fetched = n + 1);
                          its = take n fetched
                      in Inr \<lparr>items = its, limit = clamp_limit lim, has_more = more,
                              next_cursor = (if more \<and> its \<noteq> []
                                             then Some (doc_id (last its)) else None)\<rparr>))))"

text \<open>The identifier of a document as the store hands it out.\<close>

definition doc_id_of :: "jobj \<Rightarrow> string" where
  "doc_id_of d = (case map_of d ''_id'' of Some (JStr i) \<Rightarrow> i | _ \<Rightarrow> [])"

text \<open>
  The collaborators put together: the store with its identifier generator, and the
  engine over the store's documents.
\<close>

definition spec_io ::
  "(store \<Rightarrow> string \<Rightarrow> string) \<Rightarrow> (string \<Rightarrow> jobj \<Rightarrow> 'k::linorder) \<Rightarrow> (string \<Rightarrow> jobj \<Rightarrow> bool)
    \<Rightarrow> (store, jobj list, jobj) api_utils" where
  "spec_io new_id sort_value name_matches =
    \<lparr>create_document = mongo_create_document new_id,
     get_document = mongo_get_document,
     get_collection = mongo_get_collection,
     scroll_query = execute_infinite_scroll_query doc_id_of sort_value name_matches\<rparr>"

subsection \<open>A client scrolling through the collection\<close>

text \<open>
  The client of the list operation: it asks for a page, and while the page says
  \<open>has_more\<close> it asks again with the page's \<open>next_cursor\<close> as \<open>after_id\<close>. The first
  argument bounds the number of requests; \<open>None\<close> means the bound was reached before a
  page with \<open>has_more = False\<close> came back.
\<close>

fun scroll ::
  "nat \<Rightarrow> (string option \<Rightarrow> exc + 'd page) \<Rightarrow> string option \<Rightarrow> (exc + 'd page list) option"
  where
  "scroll 0 list_page cursor = None"
| "scroll (Suc n) list_page cursor =
    (case list_page cursor of
       Inl e \<Rightarrow> Some (Inl e)
     | Inr p \<Rightarrow>
        (if has_more p
         then (case scroll n list_page (next_cursor p) of
                 None \<Rightarrow> None
               | Some (Inl e) \<Rightarrow> Some (Inl e)
               | Some (Inr ps) \<Rightarrow> Some (Inr (p # ps)))
         else Some (Inr [p])))"

text \<open>
  The page the specification describes when \<open>post\<close> are the documents still to come,
  in order: the first \<open>limit\<close> of them, \<open>has_more\<close> when there are more than that, and
  then the identifier of the last one returned as \<open>next_cursor\<close>.
\<close>

definition page_from :: "('d \<Rightarrow> string) \<Rightarrow> int \<Rightarrow> 'd list \<Rightarrow> 'd page" where
  "page_from doc_id lim post =
    (let n = nat (clamp_limit lim) in
     \<lparr>items = take n post, limit = clamp_limit lim, has_more = (n < length post),
      next_cursor = (if n < length post then Some (doc_id (last (take n post))) else None)\<rparr>)"

text \<open>
  \<open>remaining doc_id all cursor post\<close>: in the ordered collection \<open>all\<close>, the documents
  \<open>post\<close> are those that come after the document the cursor identifies (all of them when
  there is no cursor).
\<close>

definition remaining :: "('d \<Rightarrow> string) \<Rightarrow> 'd list \<Rightarrow> string option \<Rightarrow> 'd list \<Rightarrow> bool" where
  "remaining doc_id all cursor post \<longleftrightarrow>
    (cursor = None \<and> post = all) \<or> (\<exists>pre c. cursor = Some (doc_id c) \<and> all = pre @ c # post)"

subsection \<open>A store and a request to run the model on\<close>

text \<open>
  A store instance: sort values are the string under the field (empty when absent or
  not a string), the name filter is the exact match, identifiers count the documents.
\<close>

definition string_field :: "string \<Rightarrow> jobj \<Rightarrow> string" where
  "string_field f d = (case map_of d f of Some (JStr s) \<Rightarrow> s | _ \<Rightarrow> [])"

definition name_is :: "string \<Rightarrow> jobj \<Rightarrow> bool" where
  "name_is s d = (map_of d ''name'' = Some (JStr s))"

definition next_id :: "store \<Rightarrow> string \<Rightarrow> string" where
  "next_id st coll = CHR ''g'' # replicate (Suc (length (st coll))) CHR ''1''"

definition sample_io :: "(store, jobj list, jobj) api_utils" where
  "sample_io = spec_io next_id string_field name_is"

definition sample_config :: config where
  "sample_config = \<lparr>GRADE_COLLECTION_NAME = ''Grade''\<rparr>"

definition sample_token :: token where
  "sample_token = \<lparr>user_id = ''u1'', roles = [''admin'']\<rparr>"

text \<open>
  A heap holding, at address 10, a request dictionary that brings its own \<^verbatim>\<open>_id\<close> and
  \<^verbatim>\<open>created\<close>, and at address 11 the object of the request's breadcrumb.
\<close>

definition sample_heap :: heap where
  "sample_heap =
    \<lparr>dicts = (\<lambda>a. [])(10 := [(''_id'', Val (JStr ''mine'')), (''name'', Val (JStr ''A'')),
                              (''created'', Val (JStr ''forged''))]),
     objs = (\<lambda>a. [])(11 := [(''at_time'', JStr ''2026-01-01T00:00:00''),
                             (''by_user'', JStr ''u1''), (''from_ip'', JStr ''10.0.0.1''),
                             (''correlation_id'', JStr ''c-1'')])\<rparr>"

definition sample_request :: flask_request where
  "sample_request =
    \<lparr>create_flask_token = Inr sample_token,
     create_flask_breadcrumb = (\<lambda>tok. Inr (Ref 11)),
     args = Map.empty,
     get_json = Some 10,
     new_dict = 12\<rparr>"

definition empty_store :: store where
  "empty_store = (\<lambda>coll. [])"

text \<open>
  The example of the specification: five documents named a to e, inserted in another
  order.
\<close>

definition five_grades :: store where
  "five_grades =
    empty_store(''Grade'' :=
      [(''3'', [(''name'', JStr ''c'')]), (''1'', [(''name'', JStr ''a'')]),
       (''5'', [(''name'', JStr ''e'')]), (''2'', [(''name'', JStr ''b'')]),
       (''4'', [(''name'', JStr ''d'')])])"

subsection \<open>An adapter that is down\<close>

text \<open>The adapter every call of which raises \<open>e\<close>.\<close>

definition failing_io :: "exc \<Rightarrow> ('st, 'c, 'd) api_utils" where
  "failing_io e =
    \<lparr>create_document = (\<lambda>coll h a st. Inl e),
     get_document = (\<lambda>coll i st. Inl e),
     get_collection = (\<lambda>coll st. Inl e),
     scroll_query = (\<lambda>c name after_id lim sort_by order allowed. Inl e)\<rparr>"

section \<open>Verified properties\<close>

subsection \<open>Fetching one document\<close>

text \<open>
  Claim C5. For every identifier, \<open>get_grade\<close> returns the stored document when the store
  holds one under that identifier, and it fails with a not-found error exactly when the
  store returns no document for it; that error is answered with status 404. The store is
  any adapter whose call does not itself raise a not-found error: per its contract
  (\<^verbatim>\<open>get(collection, id) -> doc | null\<close>) it reports absence by returning null.
\<close>

theorem get_grade_found_or_not_found:
  assumes "\<forall>m. get_document io (GRADE_COLLECTION_NAME cfg) grade_id st \<noteq> Inl (HTTPNotFound m)"
  shows "(\<forall>g. get_document io (GRADE_COLLECTION_NAME cfg) grade_id st = Inr (Some g)
              \<longrightarrow> get_grade io cfg st grade_id tok bc = Inr g)
       \<and> ((\<exists>m. get_grade io cfg st grade_id tok bc = Inl (HTTPNotFound m))
              \<longleftrightarrow> get_document io (GRADE_COLLECTION_NAME cfg) grade_id st = Inr None)
       \<and> (get_document io (GRADE_COLLECTION_NAME cfg) grade_id st = Inr None
              \<longrightarrow> get_grade io cfg st grade_id tok bc
                    = Inl (HTTPNotFound (''Grade '' @ grade_id @ '' not found''))
                \<and> snd (error_response (HTTPNotFound (''Grade '' @ grade_id @ '' not found''))
                         :: 'd response) = 404)"
  using assms
  by (auto simp: get_grade_def get_grade_try_def check_permission_def
           split: sum.splits option.splits exc.splits)

theorem get_grade_found_or_not_found_witness:
  "get_grade (spec_io (\<lambda>st c. ''x'') (\<lambda>f d. ()) (\<lambda>s d. True)) \<lparr>GRADE_COLLECTION_NAME = ''Grade''\<rparr>
      ((\<lambda>c. [])(''Grade'' := [(''a1'', [(''name'', JStr ''first'')])])) ''a1''
      \<lparr>user_id = ''u'', roles = []\<rparr> (Val JNull)
     = Inr [(''_id'', JStr ''a1''), (''name'', JStr ''first'')]
   \<and> get_grade (spec_io (\<lambda>st c. ''x'') (\<lambda>f d. ()) (\<lambda>s d. True)) \<lparr>GRADE_COLLECTION_NAME = ''Grade''\<rparr>
      ((\<lambda>c. [])(''Grade'' := [(''a1'', [(''name'', JStr ''first'')])])) ''zz''
      \<lparr>user_id = ''u'', roles = []\<rparr> (Val JNull)
     = Inl (HTTPNotFound ''Grade zz not found'')"
  using get_grade_found_or_not_found
          [of "spec_io (\<lambda>st c. ''x'') (\<lambda>f d. ()) (\<lambda>s d. True)" "\<lparr>GRADE_COLLECTION_NAME = ''Grade''\<rparr>"
              "''a1''" "(\<lambda>c. [])(''Grade'' := [(''a1'', [(''name'', JStr ''first'')])])"
              "\<lparr>user_id = ''u'', roles = []\<rparr>" "Val JNull"]
        get_grade_found_or_not_found
          [of "spec_io (\<lambda>st c. ''x'') (\<lambda>f d. ()) (\<lambda>s d. True)" "\<lparr>GRADE_COLLECTION_NAME = ''Grade''\<rparr>"
              "''zz''" "(\<lambda>c. [])(''Grade'' := [(''a1'', [(''name'', JStr ''first'')])])"
              "\<lparr>user_id = ''u'', roles = []\<rparr>" "Val JNull"]
  by (simp add: spec_io_def mongo_get_document_def render_def)

subsection \<open>What an internal error tells the caller\<close>

text \<open>
  Claim C6. The claim asks that the message of an internal error be the same whatever
  the underlying exception was. \<open>get_grades\<close> and \<open>get_grade\<close> build their message
  without the exception, but \<open>create_grade\<close> appends \<^verbatim>\<open>str(e)\<close> to it: two adapter
  failures give the caller two different messages, each carrying the adapter's own text.
\<close>

theorem create_grade_message_carries_cause:
  "snd (create_grade (failing_io (PyException ''db1.internal:27017: connection refused''))
          cfg h data tok bc st)
     = Inl (HTTPInternalServerError
             ''Failed to create grade: db1.internal:27017: connection refused'')
   \<and> snd (create_grade (failing_io (PyException ''E11000 duplicate key'')) cfg h data tok bc st)
     = Inl (HTTPInternalServerError ''Failed to create grade: E11000 duplicate key'')"
  by (simp add: create_grade_def create_grade_try_def check_permission_def failing_io_def Let_def)

subsection \<open>Which errors pass a service function\<close>

text \<open>
  Claim C7, as the claim states it, fails: a not-found error or a forbidden error that
  arises inside the list operation does not reach the caller unchanged, it is replaced
  by an internal error.
\<close>

theorem wrapped_not_found_in_list:
  "get_grades_try (failing_io (HTTPNotFound ''collection Grade not found'')
                    :: (unit, unit, jobj) api_utils)
      \<lparr>GRADE_COLLECTION_NAME = ''Grade''\<rparr> () \<lparr>user_id = ''u'', roles = []\<rparr> (Val JNull)
      None None 10 ''name'' ''asc''
     = Inl (HTTPNotFound ''collection Grade not found'')
   \<and> get_grades (failing_io (HTTPNotFound ''collection Grade not found'')
                  :: (unit, unit, jobj) api_utils)
      \<lparr>GRADE_COLLECTION_NAME = ''Grade''\<rparr> () \<lparr>user_id = ''u'', roles = []\<rparr> (Val JNull)
      None None 10 ''name'' ''asc''
     = Inl (HTTPInternalServerError ''Failed to retrieve grades'')
   \<and> get_grades_try (failing_io (HTTPForbidden ''read denied'') :: (unit, unit, jobj) api_utils)
      \<lparr>GRADE_COLLECTION_NAME = ''Grade''\<rparr> () \<lparr>user_id = ''u'', roles = []\<rparr> (Val JNull)
      None None 10 ''name'' ''asc''
     = Inl (HTTPForbidden ''read denied'')
   \<and> get_grades (failing_io (HTTPForbidden ''read denied'') :: (unit, unit, jobj) api_utils)
      \<lparr>GRADE_COLLECTION_NAME = ''Grade''\<rparr> () \<lparr>user_id = ''u'', roles = []\<rparr> (Val JNull)
      None None 10 ''name'' ''asc''
     = Inl (HTTPInternalServerError ''Failed to retrieve grades'')"
  by (simp add: get_grades_def get_grades_try_def check_permission_def failing_io_def)

text \<open>
  Claim C7, amended. Each operation re-raises unchanged the one domain error its own
  \<^verbatim>\<open>except\<close> clause names (create: forbidden, list: validation, get: not-found), and
  every exception that is not a validation, forbidden or not-found error is caught and
  re-raised as an internal error, by all three operations.
\<close>

theorem own_error_unchanged_others_wrapped:
  "(create_grade_try io cfg h data tok bc st = (h', Inl (HTTPForbidden m))
      \<longrightarrow> create_grade io cfg h data tok bc st = (h', Inl (HTTPForbidden m)))
   \<and> (get_grades_try io cfg st tok bc name after_id lim sort_by order = Inl (HTTPBadRequest m)
      \<longrightarrow> get_grades io cfg st tok bc name after_id lim sort_by order = Inl (HTTPBadRequest m))
   \<and> (get_grade_try io cfg st grade_id tok bc = Inl (HTTPNotFound m)
      \<longrightarrow> get_grade io cfg st grade_id tok bc = Inl (HTTPNotFound m))
   \<and> (\<not> domain_error e \<longrightarrow>
        (create_grade_try io cfg h data tok bc st = (h', Inl e)
           \<longrightarrow> create_grade io cfg h data tok bc st
               = (h', Inl (HTTPInternalServerError (''Failed to create grade: '' @ exc_str e))))
      \<and> (get_grades_try io cfg st tok bc name after_id lim sort_by order = Inl e
           \<longrightarrow> get_grades io cfg st tok bc name after_id lim sort_by order
               = Inl (HTTPInternalServerError ''Failed to retrieve grades''))
      \<and> (get_grade_try io cfg st grade_id tok bc = Inl e
           \<longrightarrow> get_grade io cfg st grade_id tok bc
               = Inl (HTTPInternalServerError (''Failed to retrieve grade '' @ grade_id))))"
  by (cases e) (simp_all add: create_grade_def get_grades_def get_grade_def domain_error_def)

theorem own_error_unchanged_others_wrapped_witness:
  "create_grade (failing_io (HTTPForbidden ''denied'') :: (unit, unit, jobj) api_utils)
      \<lparr>GRADE_COLLECTION_NAME = ''Grade''\<rparr> \<lparr>dicts = (\<lambda>a. []), objs = (\<lambda>a. [])\<rparr> 0
      \<lparr>user_id = ''u'', roles = []\<rparr> (Ref 1) ()
     = (\<lparr>dicts = (\<lambda>a. [])(0 := [(''created'', Ref 1)]), objs = (\<lambda>a. [])\<rparr>,
        Inl (HTTPForbidden ''denied''))
   \<and> get_grades (failing_io (HTTPBadRequest ''bad cursor'') :: (unit, unit, jobj) api_utils)
      \<lparr>GRADE_COLLECTION_NAME = ''Grade''\<rparr> () \<lparr>user_id = ''u'', roles = []\<rparr> (Ref 1)
      None None 10 ''name'' ''asc''
     = Inl (HTTPBadRequest ''bad cursor'')
   \<and> get_grade (spec_io (\<lambda>st c. ''x'') (\<lambda>f d. ()) (\<lambda>s d. True))
      \<lparr>GRADE_COLLECTION_NAME = ''Grade''\<rparr> (\<lambda>c. []) ''zz'' \<lparr>user_id = ''u'', roles = []\<rparr> (Ref 1)
     = Inl (HTTPNotFound ''Grade zz not found'')
   \<and> create_grade (failing_io (PyException ''boom'') :: (unit, unit, jobj) api_utils)
      \<lparr>GRADE_COLLECTION_NAME = ''Grade''\<rparr> \<lparr>dicts = (\<lambda>a. []), objs = (\<lambda>a. [])\<rparr> 0
      \<lparr>user_id = ''u'', roles = []\<rparr> (Ref 1) ()
     = (\<lparr>dicts = (\<lambda>a. [])(0 := [(''created'', Ref 1)]), objs = (\<lambda>a. [])\<rparr>,
        Inl (HTTPInternalServerError ''Failed to create grade: boom''))
   \<and> get_grades (failing_io (PyException ''boom'') :: (unit, unit, jobj) api_utils)
      \<lparr>GRADE_COLLECTION_NAME = ''Grade''\<rparr> () \<lparr>user_id = ''u'', roles = []\<rparr> (Ref 1)
      None None 10 ''name'' ''asc''
     = Inl (HTTPInternalServerError ''Failed to retrieve grades'')
   \<and> get_grade (failing_io (PyException ''boom'') :: (unit, unit, jobj) api_utils)
      \<lparr>GRADE_COLLECTION_NAME = ''Grade''\<rparr> () ''zz'' \<lparr>user_id = ''u'', roles = []\<rparr> (Ref 1)
     = Inl (HTTPInternalServerError ''Failed to retrieve grade zz'')"
  using own_error_unchanged_others_wrapped
          [of "failing_io (HTTPForbidden ''denied'') :: (unit, unit, jobj) api_utils"
              "\<lparr>GRADE_COLLECTION_NAME = ''Grade''\<rparr>" "\<lparr>dicts = (\<lambda>a. []), objs = (\<lambda>a. [])\<rparr>" 0
              "\<lparr>user_id = ''u'', roles = []\<rparr>" "Ref 1" "()"
              "\<lparr>dicts = (\<lambda>a. [])(0 := [(''created'', Ref 1)]), objs = (\<lambda>a. [])\<rparr>" "''denied''"
              None None 10 "''name''" "''asc''" "''zz''" "PyException ''boom''"]
        own_error_unchanged_others_wrapped
          [of "failing_io (HTTPBadRequest ''bad cursor'') :: (unit, unit, jobj) api_utils"
              "\<lparr>GRADE_COLLECTION_NAME = ''Grade''\<rparr>" "\<lparr>dicts = (\<lambda>a. []), objs = (\<lambda>a. [])\<rparr>" 0
              "\<lparr>user_id = ''u'', roles = []\<rparr>" "Ref 1" "()"
              "\<lparr>dicts = (\<lambda>a. [])(0 := [(''created'', Ref 1)]), objs = (\<lambda>a. [])\<rparr>" "''bad cursor''"
              None None 10 "''name''" "''asc''" "''zz''" "PyException ''boom''"]
        own_error_unchanged_others_wrapped
          [of "spec_io (\<lambda>st c. ''x'') (\<lambda>f d. ()) (\<lambda>s d. True)"
              "\<lparr>GRADE_COLLECTION_NAME = ''Grade''\<rparr>" "\<lparr>dicts = (\<lambda>a. []), objs = (\<lambda>a. [])\<rparr>" 0
              "\<lparr>user_id = ''u'', roles = []\<rparr>" "Ref 1" "(\<lambda>c. [])"
              "\<lparr>dicts = (\<lambda>a. [])(0 := [(''created'', Ref 1)]), objs = (\<lambda>a. [])\<rparr>" "''Grade zz not found''"
              None None 10 "''name''" "''asc''" "''zz''" "PyException ''boom''"]
        own_error_unchanged_others_wrapped
          [of "failing_io (PyException ''boom'') :: (unit, unit, jobj) api_utils"
              "\<lparr>GRADE_COLLECTION_NAME = ''Grade''\<rparr>" "\<lparr>dicts = (\<lambda>a. []), objs = (\<lambda>a. [])\<rparr>" 0
              "\<lparr>user_id = ''u'', roles = []\<rparr>" "Ref 1" "()"
              "\<lparr>dicts = (\<lambda>a. [])(0 := [(''created'', Ref 1)]), objs = (\<lambda>a. [])\<rparr>" "''denied''"
              None None 10 "''name''" "''asc''" "''zz''" "PyException ''boom''"]
  by (simp add: create_grade_try_def get_grades_try_def get_grade_try_def check_permission_def
        failing_io_def spec_io_def mongo_get_document_def domain_error_def Let_def)

text \<open>
  Claim C9. The list operation surfaces a validation error or an internal error and
  nothing else: whatever other exception leaves its \<^verbatim>\<open>try\<close> block, a forbidden or a
  not-found error included, reaches the caller as the internal error
  \<^verbatim>\<open>Failed to retrieve grades\<close>.
\<close>

theorem get_grades_error_kinds:
  "((\<exists>p. get_grades io cfg st tok bc name after_id lim sort_by order = Inr p)
      \<or> (\<exists>m. get_grades io cfg st tok bc name after_id lim sort_by order = Inl (HTTPBadRequest m))
      \<or> get_grades io cfg st tok bc name after_id lim sort_by order
           = Inl (HTTPInternalServerError ''Failed to retrieve grades''))
   \<and> (get_grades_try io cfg st tok bc name after_id lim sort_by order = Inl e
        \<and> (\<forall>m. e \<noteq> HTTPBadRequest m)
      \<longrightarrow> get_grades io cfg st tok bc name after_id lim sort_by order
           = Inl (HTTPInternalServerError ''Failed to retrieve grades''))"
  by (cases e; cases "get_grades_try io cfg st tok bc name after_id lim sort_by order")
     (auto simp: get_grades_def split: exc.splits)


theorem get_grades_error_kinds_witness:
  "get_grades (failing_io (HTTPForbidden ''denied'') :: (unit, unit, jobj) api_utils)
      \<lparr>GRADE_COLLECTION_NAME = ''Grade''\<rparr> () \<lparr>user_id = ''u'', roles = []\<rparr> (Ref 1)
      None None 10 ''name'' ''asc''
     = Inl (HTTPInternalServerError ''Failed to retrieve grades'')
   \<and> get_grades (failing_io (HTTPNotFound ''no such collection'') :: (unit, unit, jobj) api_utils)
      \<lparr>GRADE_COLLECTION_NAME = ''Grade''\<rparr> () \<lparr>user_id = ''u'', roles = []\<rparr> (Ref 1)
      None None 10 ''name'' ''asc''
     = Inl (HTTPInternalServerError ''Failed to retrieve grades'')"
  using get_grades_error_kinds
          [of "failing_io (HTTPForbidden ''denied'') :: (unit, unit, jobj) api_utils"
              "\<lparr>GRADE_COLLECTION_NAME = ''Grade''\<rparr>" "()" "\<lparr>user_id = ''u'', roles = []\<rparr>" "Ref 1"
              None None 10 "''name''" "''asc''" "HTTPForbidden ''denied''"]
        get_grades_error_kinds
          [of "failing_io (HTTPNotFound ''no such collection'') :: (unit, unit, jobj) api_utils"
              "\<lparr>GRADE_COLLECTION_NAME = ''Grade''\<rparr>" "()" "\<lparr>user_id = ''u'', roles = []\<rparr>" "Ref 1"
              None None 10 "''name''" "''asc''" "HTTPNotFound ''no such collection''"]
  by (simp add: get_grades_try_def check_permission_def failing_io_def)

subsection \<open>Creating a document\<close>

lemma map_of_snapshot: "map_of (snapshot h d) k = map_option (deref h) (map_of d k)"
  by (induction d) (auto simp: snapshot_def)

lemma deref_dicts_upd: "deref (h\<lparr>dicts := f\<rparr>) v = deref h v"
  by (cases v) (simp_all add: deref_def)

lemma created_dict:
  "map_of (AList.update ''created'' bc
            (if ''_id'' \<in> fst ` set d then AList.delete ''_id'' d else d))
     = (map_of d)(''_id'' := None, ''created'' \<mapsto> bc)"
proof -
  have "(map_of d)(''_id'' := None) = map_of d" if "''_id'' \<notin> fst ` set d"
  proof -
    have "map_of d ''_id'' = None"
      using that by (simp add: map_of_eq_None_iff)
    then show ?thesis
      by (metis fun_upd_idem)
  qed
  then show ?thesis
    by (auto simp: update_conv' delete_conv')
qed

lemma fst_set_snapshot: "fst ` set (snapshot h d) = fst ` set d"
  by (induction d) (auto simp: snapshot_def)

lemma map_of_append_fresh:
  "i \<notin> fst ` set xs \<Longrightarrow> map_of (xs @ [(i, f)]) i = Some f"
proof -
  assume "i \<notin> fst ` set xs"
  then have "map_of xs i = None"
    by (simp add: map_of_eq_None_iff)
  then show ?thesis
    by (simp add: map_add_def)
qed

lemma filter_absent_key: "k \<notin> fst ` set xs \<Longrightarrow> filter (\<lambda>e. fst e = k) xs = []"
  by (induction xs) auto

lemma error_response_not_201: "snd (error_response e :: 'a response) \<noteq> 201"
  by (cases e) simp_all

text \<open>
  Claim C8. \<open>create_grade\<close> works on the caller's own dictionary: whatever the adapter
  does afterwards, the dictionary at the caller's address has lost its \<^verbatim>\<open>_id\<close> key and
  has \<^verbatim>\<open>created\<close> bound to the very breadcrumb value that was passed (the reference, not
  a copy), every other key left as it was; no other object of the heap is touched; the
  adapter is called on the heap so changed; and whenever the dictionary had an \<^verbatim>\<open>_id\<close>
  or did not already hold that breadcrumb under \<^verbatim>\<open>created\<close>, it is no longer what the
  caller passed.
\<close>

theorem create_grade_mutates_callers_dict:
  "map_of (dicts (fst (create_grade io cfg h data tok bc st)) data)
     = (map_of (dicts h data))(''_id'' := None, ''created'' \<mapsto> bc)
   \<and> (\<forall>a. a \<noteq> data \<longrightarrow> dicts (fst (create_grade io cfg h data tok bc st)) a = dicts h a)
   \<and> objs (fst (create_grade io cfg h data tok bc st)) = objs h
   \<and> snd (create_grade_try io cfg h data tok bc st)
       = create_document io (GRADE_COLLECTION_NAME cfg)
           (fst (create_grade io cfg h data tok bc st)) data st
   \<and> (''_id'' \<in> fst ` set (dicts h data) \<or> map_of (dicts h data) ''created'' \<noteq> Some bc
        \<longrightarrow> dicts (fst (create_grade io cfg h data tok bc st)) data \<noteq> dicts h data)"
proof -
  let ?d2 = "AList.update ''created'' bc
              (if ''_id'' \<in> fst ` set (dicts h data)
               then AList.delete ''_id'' (dicts h data) else dicts h data)"
  let ?h' = "h\<lparr>dicts := (dicts h)(data := ?d2)\<rparr>"
  have body: "create_grade_try io cfg h data tok bc st
              = (?h', create_document io (GRADE_COLLECTION_NAME cfg) ?h' data st)"
    by (simp add: create_grade_try_def check_permission_def Let_def)
  have heap: "fst (create_grade io cfg h data tok bc st) = ?h'"
    by (simp add: create_grade_def body split: sum.splits exc.splits)
  have m: "map_of ?d2 = (map_of (dicts h data))(''_id'' := None, ''created'' \<mapsto> bc)"
    by (rule created_dict)
  have changed: "?d2 \<noteq> dicts h data"
    if "''_id'' \<in> fst ` set (dicts h data) \<or> map_of (dicts h data) ''created'' \<noteq> Some bc"
  proof
    assume "?d2 = dicts h data"
    then have eq: "map_of (dicts h data)
                    = (map_of (dicts h data))(''_id'' := None, ''created'' \<mapsto> bc)"
      using m by simp
    have "map_of (dicts h data) ''_id'' = None"
      by (subst eq) simp
    moreover have "map_of (dicts h data) ''created'' = Some bc"
      by (subst eq) simp
    ultimately show False
      using that by (auto simp: map_of_eq_None_iff)
  qed
  show ?thesis
    unfolding heap using m changed by (simp add: body)
qed

theorem create_grade_mutates_callers_dict_witness:
  "''_id'' \<in> fst ` set (dicts sample_heap 10)
   \<and> dicts (fst (create_grade (failing_io (PyException ''down'') :: (unit, unit, jobj) api_utils)
                   sample_config sample_heap 10 sample_token (Ref 11) ())) 10
       \<noteq> dicts sample_heap 10
   \<and> map_of (dicts (fst (create_grade
                   (failing_io (PyException ''down'') :: (unit, unit, jobj) api_utils)
                   sample_config sample_heap 10 sample_token (Ref 11) ())) 10)
       = [''name'' \<mapsto> Val (JStr ''A''), ''created'' \<mapsto> Ref 11]"
proof -
  have has_id: "''_id'' \<in> fst ` set (dicts sample_heap 10)"
    by (simp add: sample_heap_def image_iff)
  note t = create_grade_mutates_callers_dict
             [of "failing_io (PyException ''down'') :: (unit, unit, jobj) api_utils"
                 sample_config sample_heap 10 sample_token "Ref 11" "()"]
  from t have changed:
    "dicts (fst (create_grade (failing_io (PyException ''down'') :: (unit, unit, jobj) api_utils)
                   sample_config sample_heap 10 sample_token (Ref 11) ())) 10
       \<noteq> dicts sample_heap 10"
    using has_id by (elim conjE) (erule mp, rule disjI1)
  from t have "map_of (dicts (fst (create_grade
                   (failing_io (PyException ''down'') :: (unit, unit, jobj) api_utils)
                   sample_config sample_heap 10 sample_token (Ref 11) ())) 10)
       = (map_of (dicts sample_heap 10))(''_id'' := None, ''created'' \<mapsto> Ref 11)"
    by (elim conjE)
  also have "\<dots> = [''name'' \<mapsto> Val (JStr ''A''), ''created'' \<mapsto> Ref 11]"
    by (simp add: sample_heap_def fun_eq_iff)
  finally show ?thesis
    using has_id changed by (intro conjI)
qed

text \<open>
  Claim C4. With the store of the specification, whose generator hands out an unused
  identifier: \<open>create_grade\<close> returns that identifier; the dictionary it persisted has no
  \<^verbatim>\<open>_id\<close> of the client's and holds the breadcrumb under \<^verbatim>\<open>created\<close>, whatever the
  client had put there; and fetching the identifier right away returns a document whose
  only \<^verbatim>\<open>_id\<close> is the store's, whose \<^verbatim>\<open>created\<close> is the audit record as it stood at
  creation, and whose other fields are the client's.
\<close>

theorem create_then_get_created:
  assumes fresh: "new_id st (GRADE_COLLECTION_NAME cfg) \<notin> fst ` set (st (GRADE_COLLECTION_NAME cfg))"
  shows "\<exists>h' st' g.
           create_grade (spec_io new_id sv nm) cfg h data tok bc st
             = (h', Inr (new_id st (GRADE_COLLECTION_NAME cfg), st'))
         \<and> map_of (dicts h' data) ''_id'' = None
         \<and> map_of (dicts h' data) ''created'' = Some bc
         \<and> get_grade (spec_io new_id sv nm) cfg st' (new_id st (GRADE_COLLECTION_NAME cfg)) tok bc
             = Inr g
         \<and> map_of g ''_id'' = Some (JStr (new_id st (GRADE_COLLECTION_NAME cfg)))
         \<and> length (filter (\<lambda>e. fst e = ''_id'') g) = 1
         \<and> map_of g ''created'' = Some (deref h bc)
         \<and> (\<forall>k. k \<noteq> ''_id'' \<and> k \<noteq> ''created''
                \<longrightarrow> map_of g k = map_option (deref h) (map_of (dicts h data) k))"
proof -
  let ?c = "GRADE_COLLECTION_NAME cfg"
  let ?i = "new_id st ?c"
  let ?d2 = "AList.update ''created'' bc
              (if ''_id'' \<in> fst ` set (dicts h data)
               then AList.delete ''_id'' (dicts h data) else dicts h data)"
  let ?h' = "h\<lparr>dicts := (dicts h)(data := ?d2)\<rparr>"
  let ?f = "snapshot ?h' ?d2"
  let ?st' = "st(?c := st ?c @ [(?i, ?f)])"
  let ?g = "(''_id'', JStr ?i) # ?f"
  have m: "map_of ?d2 = (map_of (dicts h data))(''_id'' := None, ''created'' \<mapsto> bc)"
    by (rule created_dict)
  have created: "create_grade (spec_io new_id sv nm) cfg h data tok bc st = (?h', Inr (?i, ?st'))"
    using fresh
    by (simp add: create_grade_def create_grade_try_def check_permission_def spec_io_def
          mongo_create_document_def Let_def)
  have fetched: "get_grade (spec_io new_id sv nm) cfg ?st' ?i tok bc = Inr ?g"
    using fresh
    by (simp add: get_grade_def get_grade_try_def check_permission_def spec_io_def
          mongo_get_document_def render_def map_of_append_fresh del: map_of_append)
  have f: "map_of ?f k = map_option (deref h) (map_of ?d2 k)" for k
    by (simp add: map_of_snapshot deref_dicts_upd cong: map_option_cong)
  have no_id: "''_id'' \<notin> fst ` set ?f"
  proof -
    have "map_of ?d2 ''_id'' = None"
      by (subst m) simp
    then show ?thesis
      by (simp add: fst_set_snapshot map_of_eq_None_iff)
  qed
  have one: "length (filter (\<lambda>e. fst e = ''_id'') ?g) = 1"
  proof -
    have "filter (\<lambda>e. fst e = ''_id'') ?f = []"
      using no_id by (rule filter_absent_key)
    then show ?thesis by simp
  qed
  have "map_of (dicts ?h' data) ''_id'' = None" "map_of (dicts ?h' data) ''created'' = Some bc"
    by (simp_all add: m)
  moreover have "map_of ?g ''_id'' = Some (JStr ?i)"
    by simp
  moreover have "map_of ?g ''created'' = Some (deref h bc)"
    by (simp add: f m)
  moreover have "\<forall>k. k \<noteq> ''_id'' \<and> k \<noteq> ''created''
                   \<longrightarrow> map_of ?g k = map_option (deref h) (map_of (dicts h data) k)"
    by (simp add: f m)
  ultimately show ?thesis
    using created fetched one by blast
qed

theorem create_then_get_created_witness:
  "next_id empty_store (GRADE_COLLECTION_NAME sample_config)
     \<notin> fst ` set (empty_store (GRADE_COLLECTION_NAME sample_config))
   \<and> (\<exists>h' st' g.
         create_grade sample_io sample_config sample_heap 10 sample_token (Ref 11) empty_store
           = (h', Inr (''g1'', st'))
       \<and> get_grade sample_io sample_config st' ''g1'' sample_token (Ref 11) = Inr g
       \<and> map_of g ''_id'' = Some (JStr ''g1'')
       \<and> map_of g ''created''
           = Some (JObj [(''at_time'', JStr ''2026-01-01T00:00:00''), (''by_user'', JStr ''u1''),
                         (''from_ip'', JStr ''10.0.0.1''), (''correlation_id'', JStr ''c-1'')])
       \<and> map_of g ''name'' = Some (JStr ''A''))"
proof -
  have id: "next_id empty_store (GRADE_COLLECTION_NAME sample_config) = ''g1''"
    by (simp add: next_id_def empty_store_def)
  have fresh: "next_id empty_store (GRADE_COLLECTION_NAME sample_config)
                 \<notin> fst ` set (empty_store (GRADE_COLLECTION_NAME sample_config))"
    by (simp add: empty_store_def)
  note t = create_then_get_created
             [of next_id empty_store sample_config string_field name_is sample_heap 10
                 sample_token "Ref 11", OF fresh, unfolded id, folded sample_io_def]
  from t obtain h' st' g where
    c: "create_grade sample_io sample_config sample_heap 10 sample_token (Ref 11) empty_store
          = (h', Inr (''g1'', st'))" and
    g: "get_grade sample_io sample_config st' ''g1'' sample_token (Ref 11) = Inr g" and
    i: "map_of g ''_id'' = Some (JStr ''g1'')" and
    cr: "map_of g ''created'' = Some (deref sample_heap (Ref 11))" and
    rest: "\<forall>k. k \<noteq> ''_id'' \<and> k \<noteq> ''created''
             \<longrightarrow> map_of g k = map_option (deref sample_heap) (map_of (dicts sample_heap 10) k)"
    by (elim exE conjE) (rule that)
  have "map_of g ''name'' = Some (JStr ''A'')"
    using rest by (simp add: sample_heap_def deref_def)
  moreover have "map_of g ''created''
           = Some (JObj [(''at_time'', JStr ''2026-01-01T00:00:00''), (''by_user'', JStr ''u1''),
                         (''from_ip'', JStr ''10.0.0.1''), (''correlation_id'', JStr ''c-1'')])"
    using cr by (simp add: sample_heap_def deref_def)
  ultimately have all: "create_grade sample_io sample_config sample_heap 10 sample_token (Ref 11)
           empty_store = (h', Inr (''g1'', st'))
       \<and> get_grade sample_io sample_config st' ''g1'' sample_token (Ref 11) = Inr g
       \<and> map_of g ''_id'' = Some (JStr ''g1'')
       \<and> map_of g ''created''
           = Some (JObj [(''at_time'', JStr ''2026-01-01T00:00:00''), (''by_user'', JStr ''u1''),
                         (''from_ip'', JStr ''10.0.0.1''), (''correlation_id'', JStr ''c-1'')])
       \<and> map_of g ''name'' = Some (JStr ''A'')"
    using c g i by (intro conjI)
  from fresh all show ?thesis
    by - (rule conjI, assumption, (rule exI)+, assumption)
qed

lemma sample_created:
  "create_grade sample_io sample_config sample_heap 10 sample_token (Ref 11) empty_store
     = (sample_heap\<lparr>dicts := (dicts sample_heap)
                         (10 := [(''name'', Val (JStr ''A'')), (''created'', Ref 11)])\<rparr>,
        Inr (''g1'',
             empty_store(''Grade'' :=
               [(''g1'', [(''name'', JStr ''A''), (''created'', JObj (objs sample_heap 11))])])))"
  by (simp add: create_grade_def create_grade_try_def check_permission_def sample_io_def
        spec_io_def mongo_create_document_def snapshot_def deref_def next_id_def
        empty_store_def sample_config_def sample_heap_def Let_def)

lemma sample_fetched:
  "get_grade sample_io sample_config
      (empty_store(''Grade'' :=
         [(''g1'', [(''name'', JStr ''A''), (''created'', JObj (objs sample_heap 11))])]))
      ''g1'' sample_token (Ref 11)
     = Inr [(''_id'', JStr ''g1''), (''name'', JStr ''A''),
            (''created'', JObj (objs sample_heap 11))]"
  by (simp add: get_grade_def get_grade_try_def check_permission_def sample_io_def spec_io_def
        mongo_get_document_def render_def sample_config_def)

lemma sample_logged: "log_success (sample_heap\<lparr>dicts := d\<rparr>) (Ref 11) = Inr ()"
  by (simp add: log_success_def breadcrumb_item_def sample_heap_def)

text \<open>
  Claim C10. Whenever \<^verbatim>\<open>POST /api/grade\<close> answers 201, the request was authenticated,
  \<open>create_grade\<close> returned an identifier, and the body of the response is the document
  that \<open>get_grade\<close> fetched for that identifier from the store as the creation left it:
  the stored state, not the request body.
\<close>

theorem post_returns_fetched_document:
  assumes "snd (route_create_grade io cfg req h st) = 201"
  shows "\<exists>tok bc h2 i st' g.
           create_flask_token req = Inr tok
         \<and> create_flask_breadcrumb req tok = Inr bc
         \<and> create_grade io cfg
              (case get_json req of
                 Some a \<Rightarrow> h
               | None \<Rightarrow> h\<lparr>dicts := (dicts h)(new_dict req := [])\<rparr>)
              (case get_json req of Some a \<Rightarrow> a | None \<Rightarrow> new_dict req) tok bc st
             = (h2, Inr (i, st'))
         \<and> get_grade io cfg st' i tok bc = Inr g
         \<and> route_create_grade io cfg req h st = (JsonBody g, 201)"
  using assms
  by (auto simp: route_create_grade_def handle_route_exceptions_def error_response_not_201
           split: sum.splits option.splits prod.splits)

theorem post_returns_fetched_document_witness:
  "route_create_grade sample_io sample_config sample_request sample_heap empty_store
     = (JsonBody [(''_id'', JStr ''g1''), (''name'', JStr ''A''),
                  (''created'', JObj (objs sample_heap 11))], 201)
   \<and> (\<exists>h2 st'.
         create_grade sample_io sample_config sample_heap 10 sample_token (Ref 11) empty_store
           = (h2, Inr (''g1'', st'))
       \<and> get_grade sample_io sample_config st' ''g1'' sample_token (Ref 11)
           = Inr [(''_id'', JStr ''g1''), (''name'', JStr ''A''),
                  (''created'', JObj (objs sample_heap 11))])"
proof -
  have r: "route_create_grade sample_io sample_config sample_request sample_heap empty_store
     = (JsonBody [(''_id'', JStr ''g1''), (''name'', JStr ''A''),
                  (''created'', JObj (objs sample_heap 11))], 201)"
    by (simp add: route_create_grade_def handle_route_exceptions_def sample_request_def
          sample_created sample_fetched sample_logged)
  then have "snd (route_create_grade sample_io sample_config sample_request sample_heap
                    empty_store) = 201"
    by simp
  from post_returns_fetched_document [OF this]
  obtain tok bc h2 i st' g where
    "create_flask_token sample_request = Inr tok"
    "create_flask_breadcrumb sample_request tok = Inr bc"
    "create_grade sample_io sample_config
       (case get_json sample_request of
          Some a \<Rightarrow> sample_heap
        | None \<Rightarrow> sample_heap\<lparr>dicts := (dicts sample_heap)(new_dict sample_request := [])\<rparr>)
       (case get_json sample_request of Some a \<Rightarrow> a | None \<Rightarrow> new_dict sample_request)
       tok bc empty_store = (h2, Inr (i, st'))"
    "get_grade sample_io sample_config st' i tok bc = Inr g"
    "route_create_grade sample_io sample_config sample_request sample_heap empty_store
       = (JsonBody g, 201)"
    by blast
  then have "create_grade sample_io sample_config sample_heap 10 sample_token (Ref 11)
               empty_store = (h2, Inr (i, st'))
           \<and> get_grade sample_io sample_config st' i sample_token (Ref 11) = Inr g
           \<and> g = [(''_id'', JStr ''g1''), (''name'', JStr ''A''),
                   (''created'', JObj (objs sample_heap 11))]"
    using r by (simp add: sample_request_def)
  then have "i = ''g1''"
    by (simp add: sample_created)
  with \<open>create_grade sample_io sample_config sample_heap 10 sample_token (Ref 11)
               empty_store = (h2, Inr (i, st'))
           \<and> get_grade sample_io sample_config st' i sample_token (Ref 11) = Inr g
           \<and> g = [(''_id'', JStr ''g1''), (''name'', JStr ''A''),
                   (''created'', JObj (objs sample_heap 11))]\<close> r
  show ?thesis by blast
qed

subsection \<open>Listing and scrolling\<close>

lemma before_irrefl: "\<not> before dir a a"
  by (cases dir) (simp_all add: before_def)

lemma before_asym: "before dir a b \<Longrightarrow> \<not> before dir b a"
  by (cases dir) (auto simp: before_def)

lemma mset_ordered: "mset (ordered dir key xs) = mset xs"
  by (cases dir) (simp_all add: ordered_def)

lemma filter_ordered: "filter P (ordered dir key xs) = ordered dir key (filter P xs)"
  by (cases dir) (simp_all add: ordered_def filter_sort rev_filter [symmetric])

lemma ordered_strict:
  assumes "distinct (map key xs)"
  shows "sorted_wrt (\<lambda>a b. before dir (key a) (key b)) (ordered dir key xs)"
proof -
  have "sorted (map key (sort_key key xs))" "distinct (map key (sort_key key xs))"
    using assms by (simp_all add: distinct_map)
  then have "sorted_wrt (<) (map key (sort_key key xs))"
    by (simp add: strict_sorted_iff)
  then have asc: "sorted_wrt (\<lambda>a b. key a < key b) (sort_key key xs)"
    by (simp add: sorted_wrt_map)
  show ?thesis
  proof (cases dir)
    case Asc
    with asc show ?thesis by (simp add: ordered_def before_def)
  next
    case Desc
    with asc show ?thesis by (simp add: ordered_def before_def sorted_wrt_rev)
  qed
qed

lemma filter_after_cursor:
  assumes "sorted_wrt (\<lambda>a b. before dir (key a) (key b)) (pre @ c # post)"
  shows "filter (\<lambda>d. before dir (key c) (key d)) (pre @ c # post) = post"
proof -
  from assms have pre: "\<forall>x\<in>set pre. before dir (key x) (key c)"
    and post: "\<forall>y\<in>set post. before dir (key c) (key y)"
    by (auto simp: sorted_wrt_append)
  from pre have "filter (\<lambda>d. before dir (key c) (key d)) pre = []"
    by (auto simp: filter_empty_conv dest: before_asym)
  moreover from post have "filter (\<lambda>d. before dir (key c) (key d)) post = post"
    by (simp add: filter_id_conv)
  ultimately show ?thesis
    by (simp add: before_irrefl)
qed

lemma find_by_id:
  "distinct (map idf xs) \<Longrightarrow> c \<in> set xs \<Longrightarrow> find (\<lambda>d. idf d = idf c) xs = Some c"
  by (induction xs) (auto simp: rev_image_eqI)

lemma distinct_keys:
  assumes "distinct (map idf xs)"
  shows "distinct (map (\<lambda>d. (f d, idf d)) xs)"
  using assms by (auto simp: distinct_map inj_on_def)

lemma clamp_limit_pos: "0 < nat (clamp_limit lim)"
  by (simp add: clamp_limit_def)

lemma cut_page:
  assumes "0 < n"
  shows "\<lparr>items = take n (take (n + 1) post), limit = l,
          has_more = (length (take (n + 1) post) = n + 1),
          next_cursor = (if length (take (n + 1) post) = n + 1 \<and> take n (take (n + 1) post) \<noteq> []
                         then Some (idf (last (take n (take (n + 1) post)))) else None)\<rparr>
       = \<lparr>items = take n post, limit = l, has_more = (n < length post),
          next_cursor = (if n < length post then Some (idf (last (take n post))) else None)\<rparr>"
proof -
  have a: "take n (take (n + 1) post) = take n post"
    by (simp add: min_def)
  have b: "(length (take (n + 1) post) = n + 1) = (n < length post)"
    by auto
  have c: "n < length post \<Longrightarrow> take n post \<noteq> []"
    using assms by auto
  show ?thesis
    unfolding a b using c by auto
qed

lemma engine_page:
  fixes sv :: "string \<Rightarrow> 'd \<Rightarrow> 'k::linorder"
  assumes sb: "sort_by \<in> set allowed"
    and ord: "parse_order order = Some dir"
    and dist: "distinct (map idf coll)"
    and at: "(cur = None \<and> post = ordered dir (\<lambda>d. (sv sort_by d, idf d)) coll)
           \<or> (\<exists>pre c. cur = Some (idf c)
                 \<and> ordered dir (\<lambda>d. (sv sort_by d, idf d)) coll = pre @ c # post)"
  shows "execute_infinite_scroll_query idf sv nm coll None cur lim sort_by order allowed
           = Inr (page_from idf lim post)"
proof -
  let ?key = "\<lambda>d. (sv sort_by d, idf d)"
  let ?S = "ordered dir ?key coll"
  let ?n = "nat (clamp_limit lim)"
  have n: "0 < ?n" by (rule clamp_limit_pos)
  have cut: "Inr \<lparr>items = take ?n (take (?n + 1) post), limit = clamp_limit lim,
                 has_more = (length (take (?n + 1) post) = ?n + 1),
                 next_cursor = (if length (take (?n + 1) post) = ?n + 1
                                   \<and> take ?n (take (?n + 1) post) \<noteq> []
                                then Some (idf (last (take ?n (take (?n + 1) post))))
                                else None)\<rparr>
             = (Inr (page_from idf lim post) :: exc + 'd page)"
    unfolding page_from_def Let_def by (simp only: cut_page [OF n])
  from at show ?thesis
  proof (elim disjE conjE exE)
    assume cur: "cur = None" and post: "post = ?S"
    have "execute_infinite_scroll_query idf sv nm coll None cur lim sort_by order allowed
            = Inr \<lparr>items = take ?n (take (?n + 1) ?S), limit = clamp_limit lim,
                 has_more = (length (take (?n + 1) ?S) = ?n + 1),
                 next_cursor = (if length (take (?n + 1) ?S) = ?n + 1
                                   \<and> take ?n (take (?n + 1) ?S) \<noteq> []
                                then Some (idf (last (take ?n (take (?n + 1) ?S))))
                                else None)\<rparr>"
      using sb ord by (simp add: execute_infinite_scroll_query_def Let_def cur)
    then show ?thesis
      using cut by (simp only: post)
  next
    fix pre c
    assume cur: "cur = Some (idf c)" and S: "?S = pre @ c # post"
    have "c \<in> set ?S" by (simp add: S)
    then have "c \<in># mset ?S" by simp
    then have "c \<in># mset coll" by (simp only: mset_ordered)
    then have c: "c \<in> set coll" by simp
    have found: "find (\<lambda>d. idf d = idf c) coll = Some c"
      using dist c by (rule find_by_id)
    have "sorted_wrt (\<lambda>a b. before dir (?key a) (?key b)) ?S"
      using dist by (intro ordered_strict distinct_keys)
    then have "filter (\<lambda>d. before dir (?key c) (?key d)) ?S = post"
      unfolding S by (rule filter_after_cursor)
    then have rest: "ordered dir ?key (filter (\<lambda>d. before dir (?key c) (?key d)) coll) = post"
      by (simp add: filter_ordered)
    have "execute_infinite_scroll_query idf sv nm coll None cur lim sort_by order allowed
            = Inr \<lparr>items = take ?n (take (?n + 1) post), limit = clamp_limit lim,
                 has_more = (length (take (?n + 1) post) = ?n + 1),
                 next_cursor = (if length (take (?n + 1) post) = ?n + 1
                                   \<and> take ?n (take (?n + 1) post) \<noteq> []
                                then Some (idf (last (take ?n (take (?n + 1) post))))
                                else None)\<rparr>"
      using sb ord by (simp add: execute_infinite_scroll_query_def Let_def cur found rest)
    then show ?thesis
      using cut by (simp only:)
  qed
qed

lemma split_at_last_taken:
  assumes "0 < n" "n < length post"
  shows "post = take (n - 1) post @ last (take n post) # drop n post"
proof -
  have "take n post \<noteq> []" using assms by auto
  then have "last (take n post) = take n post ! (length (take n post) - 1)"
    by (rule last_conv_nth)
  also have "\<dots> = post ! (n - 1)"
    using assms by simp
  finally have l: "last (take n post) = post ! (n - 1)" .
  have "post = take (n - 1) post @ post ! (n - 1) # drop (Suc (n - 1)) post"
    using assms by (intro id_take_nth_drop) simp
  then show ?thesis
    using assms l by simp
qed

lemma remaining_step:
  assumes "remaining idf all cur post" "0 < n" "n < length post"
  shows "remaining idf all (Some (idf (last (take n post)))) (drop n post)"
proof -
  note sp = split_at_last_taken [OF assms(2,3)]
  from assms(1) consider "cur = None" "post = all"
    | pre c where "cur = Some (idf c)" "all = pre @ c # post"
    unfolding remaining_def by blast
  then show ?thesis
  proof cases
    case 1
    then have "all = take (n - 1) post @ last (take n post) # drop n post"
      using sp by simp
    then show ?thesis
      unfolding remaining_def by blast
  next
    case 2
    then have "all = (pre @ c # take (n - 1) post) @ last (take n post) # drop n post"
      using sp by simp
    then show ?thesis
      unfolding remaining_def by blast
  qed
qed

lemma scroll_pages:
  assumes f: "\<And>cur post. remaining idf all cur post \<Longrightarrow> f cur = Inr (page_from idf lim post)"
  shows "remaining idf all cur post \<Longrightarrow> length post < fuel \<Longrightarrow>
         \<exists>pages. scroll fuel f cur = Some (Inr pages)
               \<and> concat (map items pages) = post
               \<and> pages \<noteq> []
               \<and> \<not> has_more (last pages)
               \<and> (\<forall>p\<in>set (butlast pages). has_more p)"
proof (induction fuel arbitrary: cur post)
  case 0
  then show ?case by simp
next
  case (Suc fuel)
  let ?n = "nat (clamp_limit lim)"
  let ?p = "page_from idf lim post"
  have n: "0 < ?n" by (rule clamp_limit_pos)
  have fp: "f cur = Inr ?p" using Suc.prems(1) by (rule f)
  have more: "has_more ?p = (?n < length post)"
    by (simp add: page_from_def Let_def)
  have its: "items ?p = take ?n post"
    by (simp add: page_from_def Let_def)
  show ?case
  proof (cases "?n < length post")
    case True
    then have nc: "next_cursor ?p = Some (idf (last (take ?n post)))"
      by (simp add: page_from_def Let_def)
    have "remaining idf all (Some (idf (last (take ?n post)))) (drop ?n post)"
      using Suc.prems(1) n True by (rule remaining_step)
    moreover have "length (drop ?n post) < fuel"
      using Suc.prems(2) n True by simp
    ultimately obtain pages where
      ps: "scroll fuel f (Some (idf (last (take ?n post)))) = Some (Inr pages)" and
      cc: "concat (map items pages) = drop ?n post" and
      ne: "pages \<noteq> []" and
      lst: "\<not> has_more (last pages)" and
      bl: "\<forall>p\<in>set (butlast pages). has_more p"
      using Suc.IH by blast
    have "scroll (Suc fuel) f cur = Some (Inr (?p # pages))"
      using fp more True nc ps by simp
    moreover have "concat (map items (?p # pages)) = post"
      using its cc by simp
    moreover have "\<not> has_more (last (?p # pages))"
      using ne lst by simp
    moreover have "\<forall>p\<in>set (butlast (?p # pages)). has_more p"
      using ne bl more True by simp
    ultimately show ?thesis by blast
  next
    case False
    have "scroll (Suc fuel) f cur = Some (Inr [?p])"
      using fp more False by simp
    moreover have "concat (map items [?p]) = post"
      using its False by simp
    moreover have "\<not> has_more (last [?p])"
      using more False by simp
    ultimately show ?thesis by auto
  qed
qed

lemma get_grades_engine:
  assumes "get_collection io (GRADE_COLLECTION_NAME cfg) st = Inr coll"
    and "scroll_query io = execute_infinite_scroll_query idf sv nm"
  shows "get_grades io cfg st tok bc name after_id lim sort_by order
           = (case execute_infinite_scroll_query idf sv nm coll name after_id lim sort_by order
                     ALLOWED_SORT_FIELDS of
                Inr result \<Rightarrow> Inr result
              | Inl (HTTPBadRequest m) \<Rightarrow> Inl (HTTPBadRequest m)
              | Inl e \<Rightarrow> Inl (HTTPInternalServerError ''Failed to retrieve grades''))"
  using assms by (simp add: get_grades_def get_grades_try_def check_permission_def)

lemma five_sorted:
  "ordered Asc (\<lambda>d. (string_field ''name'' d, doc_id_of d)) (map render (five_grades ''Grade''))
     = map render [(''1'', [(''name'', JStr ''a'')]), (''2'', [(''name'', JStr ''b'')]),
                   (''3'', [(''name'', JStr ''c'')]), (''4'', [(''name'', JStr ''d'')]),
                   (''5'', [(''name'', JStr ''e'')])]"
  by code_simp

lemma five_distinct: "distinct (map doc_id_of (map render (five_grades ''Grade'')))"
  by code_simp

lemma sample_collection:
  "get_collection sample_io (GRADE_COLLECTION_NAME sample_config) st
     = Inr (map render (st ''Grade''))"
  by (simp add: sample_io_def spec_io_def mongo_get_collection_def sample_config_def)

lemma sample_engine:
  "scroll_query sample_io = execute_infinite_scroll_query doc_id_of string_field name_is"
  by (simp add: sample_io_def spec_io_def)

lemma parse_order_asc: "parse_order ''asc'' = Some Asc"
  by code_simp

lemma parse_order_spellings:
  "list_all (\<lambda>s. parse_order s = Some Asc)
     [''asc'', ''asC'', ''aSc'', ''aSC'', ''Asc'', ''AsC'', ''ASc'', ''ASC'']
   \<and> list_all (\<lambda>s. parse_order s = Some Desc)
     [''desc'', ''desC'', ''deSc'', ''deSC'', ''dEsc'', ''dEsC'', ''dESc'', ''dESC'',
      ''Desc'', ''DesC'', ''DeSc'', ''DeSC'', ''DEsc'', ''DEsC'', ''DESc'', ''DESC'']"
  by code_simp

lemma asks_for_parsed: "asks_for order dir \<Longrightarrow> parse_order order = Some dir"
  using parse_order_spellings unfolding asks_for_def
  by (elim disjE conjE insertE emptyE) simp_all

lemma five_sorted_desc:
  "ordered Desc (\<lambda>d. (string_field ''name'' d, doc_id_of d)) (map render (five_grades ''Grade''))
     = map render [(''5'', [(''name'', JStr ''e'')]), (''4'', [(''name'', JStr ''d'')]),
                   (''3'', [(''name'', JStr ''c'')]), (''2'', [(''name'', JStr ''b'')]),
                   (''1'', [(''name'', JStr ''a'')])]"
  by code_simp

text \<open>
  Claim C1. Over any collection whose documents have distinct identifiers, for every
  allowed \<open>sort_by\<close>, every \<open>order\<close> that spells asc or desc, every limit and no name
  filter: a client that starts without a cursor and feeds each page's \<open>next_cursor\<close>
  back as \<open>after_id\<close> gets, within one request more than there are documents, a last
  page with \<open>has_more = False\<close>, every earlier page having said \<open>has_more\<close>; the items
  of the pages, put together, are the documents of the collection, each exactly once, in
  the order of (sort value, identifier): strictly increasing when the order spells asc,
  strictly decreasing when it spells desc.
\<close>

theorem scrolling_yields_every_document_once:
  fixes sv :: "string \<Rightarrow> 'd \<Rightarrow> 'k::linorder"
  assumes coll: "get_collection io (GRADE_COLLECTION_NAME cfg) st = Inr coll"
    and eng: "scroll_query io = execute_infinite_scroll_query idf sv nm"
    and dist: "distinct (map idf coll)"
    and sb: "sort_by \<in> set ALLOWED_SORT_FIELDS"
    and asks: "asks_for order dir"
    and fuel: "length coll < fuel"
  shows "\<exists>pages.
           scroll fuel (\<lambda>cursor. get_grades io cfg st tok bc None cursor lim sort_by order) None
             = Some (Inr pages)
         \<and> mset (concat (map items pages)) = mset coll
         \<and> (dir = Asc \<longrightarrow>
               sorted_wrt (\<lambda>a b. (sv sort_by a, idf a) < (sv sort_by b, idf b))
                 (concat (map items pages)))
         \<and> (dir = Desc \<longrightarrow>
               sorted_wrt (\<lambda>a b. (sv sort_by b, idf b) < (sv sort_by a, idf a))
                 (concat (map items pages)))
         \<and> sorted_wrt (\<lambda>a b. before dir (sv sort_by a, idf a) (sv sort_by b, idf b))
             (concat (map items pages))
         \<and> concat (map items pages) = ordered dir (\<lambda>d. (sv sort_by d, idf d)) coll
         \<and> pages \<noteq> []
         \<and> \<not> has_more (last pages)
         \<and> (\<forall>p\<in>set (butlast pages). has_more p)"
proof -
  let ?key = "\<lambda>d. (sv sort_by d, idf d)"
  let ?S = "ordered dir ?key coll"
  let ?f = "\<lambda>cursor. get_grades io cfg st tok bc None cursor lim sort_by order"
  have ord: "parse_order order = Some dir"
    using asks by (rule asks_for_parsed)
  have page: "?f cur = Inr (page_from idf lim post)" if "remaining idf ?S cur post" for cur post
  proof -
    have "execute_infinite_scroll_query idf sv nm coll None cur lim sort_by order
            ALLOWED_SORT_FIELDS = Inr (page_from idf lim post)"
      using sb ord dist that [unfolded remaining_def] by (rule engine_page)
    then show ?thesis
      by (simp add: get_grades_engine [OF coll eng])
  qed
  have start: "remaining idf ?S None ?S"
    by (simp add: remaining_def)
  have "length ?S = length coll"
    by (metis mset_ordered size_mset)
  then have "length ?S < fuel"
    using fuel by simp
  with page start obtain pages where
    sc: "scroll fuel ?f None = Some (Inr pages)" and
    cc: "concat (map items pages) = ?S" and
    rest: "pages \<noteq> []" "\<not> has_more (last pages)" "\<forall>p\<in>set (butlast pages). has_more p"
    using scroll_pages [of idf ?S ?f lim None ?S fuel] by blast
  have m: "mset ?S = mset coll"
    by (rule mset_ordered)
  have strict: "sorted_wrt (\<lambda>a b. before dir (?key a) (?key b)) ?S"
    using dist by (intro ordered_strict distinct_keys)
  have up: "dir = Asc \<longrightarrow> sorted_wrt (\<lambda>a b. ?key a < ?key b) ?S"
  proof
    assume "dir = Asc"
    with strict show "sorted_wrt (\<lambda>a b. ?key a < ?key b) ?S"
      by (simp add: before_def)
  qed
  have down: "dir = Desc \<longrightarrow> sorted_wrt (\<lambda>a b. ?key b < ?key a) ?S"
  proof
    assume "dir = Desc"
    with strict show "sorted_wrt (\<lambda>a b. ?key b < ?key a) ?S"
      by (simp add: before_def)
  qed
  show ?thesis
    using sc cc rest m strict up down by auto
qed

theorem scrolling_yields_every_document_once_witness:
  "(\<exists>pages.
     scroll 6 (\<lambda>cursor. get_grades sample_io sample_config five_grades sample_token (Ref 11)
                          None cursor 2 ''name'' ''asc'') None
       = Some (Inr pages)
   \<and> concat (map items pages)
       = map render [(''1'', [(''name'', JStr ''a'')]), (''2'', [(''name'', JStr ''b'')]),
                     (''3'', [(''name'', JStr ''c'')]), (''4'', [(''name'', JStr ''d'')]),
                     (''5'', [(''name'', JStr ''e'')])]
   \<and> \<not> has_more (last pages))
   \<and> (\<exists>pages.
     scroll 6 (\<lambda>cursor. get_grades sample_io sample_config five_grades sample_token (Ref 11)
                          None cursor 2 ''name'' ''DESC'') None
       = Some (Inr pages)
   \<and> concat (map items pages)
       = map render [(''5'', [(''name'', JStr ''e'')]), (''4'', [(''name'', JStr ''d'')]),
                     (''3'', [(''name'', JStr ''c'')]), (''2'', [(''name'', JStr ''b'')]),
                     (''1'', [(''name'', JStr ''a'')])]
   \<and> \<not> has_more (last pages))"
proof -
  have sb: "''name'' \<in> set ALLOWED_SORT_FIELDS"
    by (simp add: ALLOWED_SORT_FIELDS_def)
  have fuel: "length (map render (five_grades ''Grade'')) < 6"
    by (simp add: five_grades_def)
  have up: "asks_for ''asc'' Asc" and down: "asks_for ''DESC'' Desc"
    by (simp_all add: asks_for_def)
  from scrolling_yields_every_document_once
         [OF sample_collection [of five_grades] sample_engine five_distinct sb up fuel,
          of sample_token "Ref 11" 2]
  obtain pages where
    "scroll 6 (\<lambda>cursor. get_grades sample_io sample_config five_grades sample_token (Ref 11)
                          None cursor 2 ''name'' ''asc'') None = Some (Inr pages)"
    "concat (map items pages)
       = ordered Asc (\<lambda>d. (string_field ''name'' d, doc_id_of d))
           (map render (five_grades ''Grade''))"
    "\<not> has_more (last pages)"
    by (elim exE conjE) (rule that)
  then have a: "\<exists>pages.
     scroll 6 (\<lambda>cursor. get_grades sample_io sample_config five_grades sample_token (Ref 11)
                          None cursor 2 ''name'' ''asc'') None
       = Some (Inr pages)
   \<and> concat (map items pages)
       = map render [(''1'', [(''name'', JStr ''a'')]), (''2'', [(''name'', JStr ''b'')]),
                     (''3'', [(''name'', JStr ''c'')]), (''4'', [(''name'', JStr ''d'')]),
                     (''5'', [(''name'', JStr ''e'')])]
   \<and> \<not> has_more (last pages)"
    unfolding five_sorted by (intro exI conjI)
  from scrolling_yields_every_document_once
         [OF sample_collection [of five_grades] sample_engine five_distinct sb down fuel,
          of sample_token "Ref 11" 2]
  obtain pages where
    "scroll 6 (\<lambda>cursor. get_grades sample_io sample_config five_grades sample_token (Ref 11)
                          None cursor 2 ''name'' ''DESC'') None = Some (Inr pages)"
    "concat (map items pages)
       = ordered Desc (\<lambda>d. (string_field ''name'' d, doc_id_of d))
           (map render (five_grades ''Grade''))"
    "\<not> has_more (last pages)"
    by (elim exE conjE) (rule that)
  then have b: "\<exists>pages.
     scroll 6 (\<lambda>cursor. get_grades sample_io sample_config five_grades sample_token (Ref 11)
                          None cursor 2 ''name'' ''DESC'') None
       = Some (Inr pages)
   \<and> concat (map items pages)
       = map render [(''5'', [(''name'', JStr ''e'')]), (''4'', [(''name'', JStr ''d'')]),
                     (''3'', [(''name'', JStr ''c'')]), (''2'', [(''name'', JStr ''b'')]),
                     (''1'', [(''name'', JStr ''a'')])]
   \<and> \<not> has_more (last pages)"
    unfolding five_sorted_desc by (intro exI conjI)
  from a b show ?thesis
    by (rule conjI)
qed

text \<open>
  Claim C3. Whatever the collection holds, a \<open>sort_by\<close> other than \<^verbatim>\<open>name\<close>,
  \<^verbatim>\<open>description\<close> and \<^verbatim>\<open>created.at_time\<close> makes \<open>get_grades\<close> fail with a validation
  error whose message names it; a \<open>sort_by\<close> among the three never yields that error, and
  with a valid order and no cursor the call returns a page.
\<close>

theorem sort_by_allow_list:
  fixes sv :: "string \<Rightarrow> 'd \<Rightarrow> 'k::linorder"
  assumes coll: "get_collection io (GRADE_COLLECTION_NAME cfg) st = Inr coll"
    and eng: "scroll_query io = execute_infinite_scroll_query idf sv nm"
  shows "(sort_by \<notin> {''name'', ''description'', ''created.at_time''}
            \<longrightarrow> get_grades io cfg st tok bc name after_id lim sort_by order
                  = Inl (HTTPBadRequest (''Invalid sort_by: '' @ sort_by)))
       \<and> (sort_by \<in> {''name'', ''description'', ''created.at_time''}
            \<longrightarrow> (\<forall>s. get_grades io cfg st tok bc name after_id lim sort_by order
                        \<noteq> Inl (HTTPBadRequest (''Invalid sort_by: '' @ s)))
                \<and> (parse_order order \<noteq> None \<and> after_id = None
                      \<longrightarrow> (\<exists>p. get_grades io cfg st tok bc name after_id lim sort_by order
                                   = Inr p)))"
  unfolding get_grades_engine [OF coll eng]
  by (auto simp: execute_infinite_scroll_query_def ALLOWED_SORT_FIELDS_def Let_def
           split: option.splits)

theorem sort_by_allow_list_witness:
  "''nme'' \<notin> {''name'', ''description'', ''created.at_time''}
   \<and> get_grades sample_io sample_config five_grades sample_token (Ref 11) None None 10
        ''nme'' ''asc''
       = Inl (HTTPBadRequest ''Invalid sort_by: nme'')
   \<and> ''description'' \<in> {''name'', ''description'', ''created.at_time''}
   \<and> (\<exists>p. get_grades sample_io sample_config five_grades sample_token (Ref 11) None None 10
              ''description'' ''asc'' = Inr p)"
  using sort_by_allow_list
          [OF sample_collection [of five_grades] sample_engine,
           of "''nme''" sample_token "Ref 11" None None 10 "''asc''"]
        sort_by_allow_list
          [OF sample_collection [of five_grades] sample_engine,
           of "''description''" sample_token "Ref 11" None None 10 "''asc''"]
  by (simp add: parse_order_asc)

lemma route_get_grades_eq:
  "route_get_grades py_int io cfg req h st =
    handle_route_exceptions
      (case create_flask_token req of
         Inl e \<Rightarrow> Inl e
       | Inr tok \<Rightarrow>
          (case create_flask_breadcrumb req tok of
             Inl e \<Rightarrow> Inl e
           | Inr breadcrumb \<Rightarrow>
              (case get_grades io cfg st tok breadcrumb (args req ''name'') (args req ''after_id'')
                      (args_get_type (args req) ''limit'' 10 py_int)
                      (args_get_default (args req) ''sort_by'' ''name'')
                      (args_get_default (args req) ''order'' ''asc'') of
                 Inl e \<Rightarrow> Inl e
               | Inr result \<Rightarrow>
                  (case log_success h breadcrumb of
                     Inl e \<Rightarrow> Inl e
                   | Inr _ \<Rightarrow> Inr (JsonBody result, 200)))))"
  unfolding route_get_grades_def Let_def args_get_def by (rule refl)

lemma sample_list_route:
  assumes "a ''name'' = None" "a ''after_id'' = None" "a ''sort_by'' = None" "a ''order'' = None"
  shows "route_get_grades py_int sample_io sample_config (sample_request\<lparr>args := a\<rparr>)
           sample_heap five_grades
         = (JsonBody (page_from doc_id_of (args_get_type a ''limit'' 10 py_int)
                       (map render [(''1'', [(''name'', JStr ''a'')]), (''2'', [(''name'', JStr ''b'')]),
                                    (''3'', [(''name'', JStr ''c'')]), (''4'', [(''name'', JStr ''d'')]),
                                    (''5'', [(''name'', JStr ''e'')])])), 200)"
proof -
  have sb: "''name'' \<in> set ALLOWED_SORT_FIELDS"
    by (simp add: ALLOWED_SORT_FIELDS_def)
  have "execute_infinite_scroll_query doc_id_of string_field name_is
          (map render (five_grades ''Grade'')) None None (args_get_type a ''limit'' 10 py_int)
          ''name'' ''asc'' ALLOWED_SORT_FIELDS
        = Inr (page_from doc_id_of (args_get_type a ''limit'' 10 py_int)
                (ordered Asc (\<lambda>d. (string_field ''name'' d, doc_id_of d))
                  (map render (five_grades ''Grade''))))"
    using sb parse_order_asc five_distinct by (rule engine_page) simp
  then have "get_grades sample_io sample_config five_grades sample_token (Ref 11) None None
               (args_get_type a ''limit'' 10 py_int) ''name'' ''asc''
        = Inr (page_from doc_id_of (args_get_type a ''limit'' 10 py_int)
                (map render [(''1'', [(''name'', JStr ''a'')]), (''2'', [(''name'', JStr ''b'')]),
                             (''3'', [(''name'', JStr ''c'')]), (''4'', [(''name'', JStr ''d'')]),
                             (''5'', [(''name'', JStr ''e'')])]))"
    by (simp add: get_grades_engine [OF sample_collection sample_engine] five_sorted)
  then show ?thesis
    using assms
    by (simp add: route_get_grades_eq sample_request_def args_get_default_def
          handle_route_exceptions_def sample_logged [of "dicts sample_heap", simplified])
qed

text \<open>
  Claim C2. The claim asks that a limit which is not a number fail the request with a
  validation error, and the route's own documentation promises 400 for invalid
  parameters. The route reads the limit with \<^verbatim>\<open>request.args.get('limit', 10, type=int)\<close>:
  for every \<^verbatim>\<open>int\<close> that rejects \<^verbatim>\<open>abc\<close>, as Python's does, and every adapter,
  \<^verbatim>\<open>?limit=abc\<close> is answered exactly as the same request without a limit; on the five
  documents of the example that answer is 200 with the default limit 10.
\<close>

theorem non_numeric_limit_answered_with_default:
  "route_get_grades (py_int(''abc'' := None)) io cfg
      (req\<lparr>args := (args req)(''limit'' \<mapsto> ''abc'')\<rparr>) h st
     = route_get_grades py_int io cfg (req\<lparr>args := (args req)(''limit'' := None)\<rparr>) h st
   \<and> route_get_grades (py_int(''abc'' := None)) sample_io sample_config
       (sample_request\<lparr>args := [''limit'' \<mapsto> ''abc'']\<rparr>) sample_heap five_grades
     = (JsonBody \<lparr>items = map render [(''1'', [(''name'', JStr ''a'')]), (''2'', [(''name'', JStr ''b'')]),
                     (''3'', [(''name'', JStr ''c'')]), (''4'', [(''name'', JStr ''d'')]),
                     (''5'', [(''name'', JStr ''e'')])],
                  limit = 10, has_more = False, next_cursor = None\<rparr>, 200)"
proof
  show "route_get_grades (py_int(''abc'' := None)) io cfg
          (req\<lparr>args := (args req)(''limit'' \<mapsto> ''abc'')\<rparr>) h st
        = route_get_grades py_int io cfg (req\<lparr>args := (args req)(''limit'' := None)\<rparr>) h st"
    by (simp add: route_get_grades_eq args_get_type_def args_get_default_def
          cong: sum.case_cong)
  show "route_get_grades (py_int(''abc'' := None)) sample_io sample_config
          (sample_request\<lparr>args := [''limit'' \<mapsto> ''abc'']\<rparr>) sample_heap five_grades
        = (JsonBody \<lparr>items = map render [(''1'', [(''name'', JStr ''a'')]), (''2'', [(''name'', JStr ''b'')]),
                        (''3'', [(''name'', JStr ''c'')]), (''4'', [(''name'', JStr ''d'')]),
                        (''5'', [(''name'', JStr ''e'')])],
                     limit = 10, has_more = False, next_cursor = None\<rparr>, 200)"
    by (simp add: sample_list_route args_get_type_def page_from_def clamp_limit_def)
qed

end
